theory Spec2Isabelle
  imports Complex_Main
begin

section \<open>Stitch-sampling solvers of knitsketching: shallow embedding\<close>

text \<open>
  The three optimisation front ends under \<^verbatim>\<open>src/libs/nlopt-wasm\<close>
  (\<^verbatim>\<open>global_sampling.cpp\<close>, \<^verbatim>\<open>local_sampling.cpp\<close>, \<^verbatim>\<open>sr_sampling.cpp\<close>) are
  embedded as HOL functions.  Conventions:

  \<^item> \<^verbatim>\<open>double\<close> is idealised as \<^typ>\<open>real\<close>: rounding, infinities and NaN are not modelled.
  \<^item> \<^verbatim>\<open>index_t\<close> (\<^verbatim>\<open>size_t\<close>) is \<^typ>\<open>nat\<close>; no index arithmetic of the modelled code
    can wrap for vectors that fit in memory.
  \<^item> \<^verbatim>\<open>std::vector\<close> is a list.  \<^verbatim>\<open>v[i]\<close> with \<^verbatim>\<open>i >= v.size()\<close> is undefined behaviour in
    C++; the model reads with \<open>!\<close> and writes with \<open>[i := v]\<close>, and a statement that needs
    an access to be in range says so in a hypothesis.  The setters, which take an index
    from outside, return no state for an index outside the vector.
  \<^item> File-level \<^verbatim>\<open>static\<close> variables that a function only reads are passed as arguments
    of the same name; functions that write them take and return a state record.
  \<^item> A gradient argument of size zero means "no gradient requested", as in the source.
\<close>

subsection \<open>global_sampling.cpp: nodes and aliases\<close>

type_synonym index_t = nat

record Node =
  index :: index_t
  simple :: bool
  inp_edges :: "index_t list"
  out_edges :: "index_t list"

definition has_interface_constraint :: "Node \<Rightarrow> bool" where
  "has_interface_constraint node \<longleftrightarrow>
     length (inp_edges node) > 0 \<and> length (out_edges node) > 0 \<and> \<not> simple node"

definition has_range_constraint :: "Node \<Rightarrow> bool" where
  "has_range_constraint node \<longleftrightarrow> simple node"

definition inp :: "Node \<Rightarrow> index_t" where
  "inp node = inp_edges node ! 0"

definition out :: "Node \<Rightarrow> index_t" where
  "out node = out_edges node ! 0"

record VarAlias =
  index :: index_t
  pos :: "index_t list"
  neg :: "index_t list"
  min_bound :: real

text \<open>\<^verbatim>\<open>VarAlias::empty\<close>, renamed because of the many \<open>empty\<close> constants of HOL.\<close>

definition alias_empty :: "VarAlias \<Rightarrow> bool" where
  "alias_empty alias \<longleftrightarrow> pos alias = [] \<and> neg alias = []"

definition is_valid :: "VarAlias \<Rightarrow> bool" where
  "is_valid alias \<longleftrightarrow> neg alias = [] \<or> pos alias \<noteq> []"

definition has_constraint :: "VarAlias \<Rightarrow> bool" where
  "has_constraint alias \<longleftrightarrow> length (neg alias) > 1"

datatype AliasingLevel = NONE | TRIVIAL | BASIC | COMPLEX

fun level_num :: "AliasingLevel \<Rightarrow> nat" where
  "level_num NONE = 0"
| "level_num TRIVIAL = 1"
| "level_num BASIC = 2"
| "level_num COMPLEX = 3"

definition loss :: "real \<Rightarrow> real" where
  "loss x = x * x"

subsection \<open>Gather and scatter between reduced and full variables\<close>

text \<open>
  \<^verbatim>\<open>from_reduced_to_aliases(rns, ns)\<close>: the body of the loop for one \<open>i\<close>, then the loop
  over \<open>i < ns.size()\<close>.  The statics \<^verbatim>\<open>aliases\<close> and \<^verbatim>\<open>aliasToRed\<close> are arguments.
\<close>

definition gather_value :: "index_t list \<Rightarrow> real list \<Rightarrow> VarAlias \<Rightarrow> real" where
  "gather_value aliasToRed rns alias =
     fold (\<lambda>idx val. val - rns ! (aliasToRed ! idx)) (neg alias)
       (fold (\<lambda>idx val. val + rns ! (aliasToRed ! idx)) (pos alias) 0)"

definition from_reduced_to_aliases ::
  "VarAlias list \<Rightarrow> index_t list \<Rightarrow> real list \<Rightarrow> real list \<Rightarrow> real list" where
  "from_reduced_to_aliases aliases aliasToRed rns ns =
     fold (\<lambda>i ns.
             if alias_empty (aliases ! i) then ns[i := rns ! (aliasToRed ! i)]
             else ns[i := gather_value aliasToRed rns (aliases ! i)])
          [0..<length ns] ns"

text \<open>
  \<^verbatim>\<open>from_aliases_to_reduced(ns, rns, rnsIsZeroed)\<close>: \<^verbatim>\<open>rns\<close> is reset unless the caller
  says it is zero already, then every full entry is spread over the reduced entries
  it was gathered from.
\<close>

definition spread_entry ::
  "index_t list \<Rightarrow> VarAlias \<Rightarrow> index_t \<Rightarrow> real \<Rightarrow> real list \<Rightarrow> real list" where
  "spread_entry aliasToRed alias i v rns =
     (if alias_empty alias then rns[aliasToRed ! i := rns ! (aliasToRed ! i) + v]
      else fold (\<lambda>idx r. r[aliasToRed ! idx := r ! (aliasToRed ! idx) - v]) (neg alias)
             (fold (\<lambda>idx r. r[aliasToRed ! idx := r ! (aliasToRed ! idx) + v]) (pos alias) rns))"

definition from_aliases_to_reduced ::
  "VarAlias list \<Rightarrow> index_t list \<Rightarrow> real list \<Rightarrow> real list \<Rightarrow> bool \<Rightarrow> real list" where
  "from_aliases_to_reduced aliases aliasToRed ns rns rnsIsZeroed =
     fold (\<lambda>i r. spread_entry aliasToRed (aliases ! i) i (ns ! i) r)
          [0..<length ns]
          (if rnsIsZeroed then rns else replicate (length rns) 0)"

definition set_reduced_from_aliases ::
  "index_t list \<Rightarrow> real list \<Rightarrow> real list \<Rightarrow> real list" where
  "set_reduced_from_aliases redToAlias ns rns =
     fold (\<lambda>i r. r[i := ns ! (redToAlias ! i)]) [0..<length rns] rns"

subsection \<open>compute_aliases\<close>

text \<open>
  \<^verbatim>\<open>std::numeric_limits<index_t>::max()\<close>, the entry of \<^verbatim>\<open>aliasToRed\<close> for a variable
  that is aliased away; \<^verbatim>\<open>size_t\<close> has 32 bits on the wasm32 target of the build.
\<close>

definition index_t_max :: index_t where
  "index_t_max = 2 ^ 32 - 1"

text \<open>
  The second loop of \<^verbatim>\<open>compute_aliases\<close>: one pass over \<^verbatim>\<open>aliases\<close> that appends to
  \<^verbatim>\<open>redToAlias\<close> and \<^verbatim>\<open>aliasToRed\<close>, both cleared before.
\<close>

definition mapping_step ::
  "VarAlias \<Rightarrow> index_t list \<times> index_t list \<Rightarrow> index_t list \<times> index_t list" where
  "mapping_step alias m =
     (let redToAlias = fst m; aliasToRed = snd m; redIdx = length redToAlias
      in if alias_empty alias
         then (redToAlias @ [VarAlias.index alias], aliasToRed @ [redIdx])
         else (redToAlias, aliasToRed @ [index_t_max]))"

definition create_mappings :: "VarAlias list \<Rightarrow> index_t list \<times> index_t list" where
  "create_mappings aliases = fold mapping_step aliases ([], [])"


text \<open>
  The first loop of \<^verbatim>\<open>compute_aliases\<close>, for one node: the state is the pair
  (\<^verbatim>\<open>aliases\<close>, \<^verbatim>\<open>reduced\<close>).  Every \<^verbatim>\<open>continue\<close> returns the state unchanged;
  the other branches fall through to \<^verbatim>\<open>reduced[node.index] = true\<close>.  In the
  \<^verbatim>\<open>COMPLEX\<close> branch \<^verbatim>\<open>neg\<close> grows by \<^verbatim>\<open>push_back\<close> of the outputs from the second on.
\<close>

definition alias_node_step ::
  "AliasingLevel \<Rightarrow> Node \<Rightarrow> VarAlias list \<times> bool list \<Rightarrow> VarAlias list \<times> bool list" where
  "alias_node_step aliasing_level node st =
     (let aliases = fst st; reduced = snd st
      in if reduced ! Node.index node \<or> \<not> has_interface_constraint node then st
         else
           let num_inp = length (inp_edges node);
               num_out = length (out_edges node);
               i0 = inp_edges node ! 0;
               o0 = out_edges node ! 0
           in if num_inp = 1 \<and> num_out = 1 then
                (aliases[o0 := (aliases ! o0)\<lparr>pos := inp_edges node\<rparr>],
                 reduced[Node.index node := True])
              else if num_inp = 1 \<or> num_out = 1 then
                (if level_num aliasing_level < level_num BASIC then st
                 else if num_inp = 1 then
                   (aliases[i0 := (aliases ! i0)\<lparr>pos := out_edges node\<rparr>],
                    reduced[Node.index node := True])
                 else
                   (aliases[o0 := (aliases ! o0)\<lparr>pos := inp_edges node\<rparr>],
                    reduced[Node.index node := True]))
              else if aliasing_level = COMPLEX then
                (aliases[o0 := (aliases ! o0)
                    \<lparr>pos := inp_edges node,
                     neg := neg (aliases ! o0) @ drop 1 (out_edges node)\<rparr>],
                 reduced[Node.index node := True])
              else st)"

text \<open>
  The static state of \<^verbatim>\<open>global_sampling.cpp\<close>.  Fields carry the prefix \<open>g_\<close>
  because the three source files declare statics of the same names.  The algorithm
  identifiers are values of the enumeration of the optimiser's header, kept as
  integers.
\<close>

record global_state =
  g_cdata :: "real list"
  g_wdata :: "real list"
  g_iwdata :: "real list"
  g_nodes :: "Node list"
  g_w_c :: real
  g_w_s :: real
  g_aliases :: "VarAlias list"
  g_aliased :: bool
  g_reduced :: "bool list"
  g_aliasing_level :: AliasingLevel
  g_redToAlias :: "index_t list"
  g_aliasToRed :: "index_t list"
  g_rvars :: "real list"
  g_verbose :: bool
  g_curr_iter :: nat
  g_main_algo :: int
  g_local_algo :: int
  g_use_constraints :: bool
  g_main_ftol_rel :: real
  g_max_eval :: nat
  g_max_time :: real
  g_local_ftol_rel :: real
  g_constraint_tol :: real
  g_seed :: nat
  g_gaussian_start :: bool
  g_global_shaping :: bool
  g_nvars :: "real list"
  g_ngrad :: "real list"
  g_objval :: real

text \<open>
  \<^verbatim>\<open>VarAlias noAlias;\<close> leaves \<^verbatim>\<open>index\<close> and \<^verbatim>\<open>min_bound\<close> uninitialised.  The index is
  assigned right after; \<^verbatim>\<open>min_bound\<close> is written by \<^verbatim>\<open>solve\<close> before it is read, and the
  model starts it at 0.  \<^verbatim>\<open>rvars.resize(k)\<close> keeps the old prefix and pads with zeros.
\<close>

definition noAlias :: VarAlias where
  "noAlias = \<lparr>VarAlias.index = 0, pos = [], neg = [], min_bound = 0\<rparr>"

definition resize :: "nat \<Rightarrow> real list \<Rightarrow> real list" where
  "resize k xs = take k xs @ replicate (k - length xs) 0"

definition compute_aliases :: "global_state \<Rightarrow> global_state" where
  "compute_aliases gs =
     (if g_aliased gs then gs
      else
        let aliases0 = map (\<lambda>i. noAlias\<lparr>VarAlias.index := i\<rparr>) [0..<length (g_aliases gs)];
            reduced0 = replicate (length (g_reduced gs)) False;
            gs0 = gs\<lparr>g_aliases := aliases0, g_reduced := reduced0, g_aliased := True\<rparr>
        in if g_aliasing_level gs = NONE then gs0
           else
             let st = fold (alias_node_step (g_aliasing_level gs)) (g_nodes gs) (aliases0, reduced0);
                 m = create_mappings (fst st)
             in gs0\<lparr>g_aliases := fst st, g_reduced := snd st,
                     g_redToAlias := fst m, g_aliasToRed := snd m,
                     g_rvars := resize (length (fst m)) (g_rvars gs)\<rparr>)"

subsection \<open>The global objective\<close>

text \<open>
  \<^verbatim>\<open>global_sampling(ns, grad, f_data)\<close> returns the value and the gradient vector as
  it leaves it.  The diagnostic \<^verbatim>\<open>printf\<close> under \<^verbatim>\<open>verbose && curr_iter\<close> is not modelled.
  First the loop over \<^verbatim>\<open>cdata\<close> (one of two, chosen by \<^verbatim>\<open>grad.size() > 0\<close>), then the loop
  over the nodes.
\<close>

definition course_errors ::
  "real list \<Rightarrow> real \<Rightarrow> real list \<Rightarrow> real list \<Rightarrow> real \<times> real list" where
  "course_errors cdata w_c ns grad =
     (if length grad > 0 then
        fold (\<lambda>i acc. (fst acc + loss (ns ! i - cdata ! i),
                        (snd acc)[i := w_c * 2 * (ns ! i - cdata ! i)]))
             [0..<length cdata] (0, grad)
      else
        (fold (\<lambda>i Ec. Ec + loss (ns ! i - cdata ! i)) [0..<length cdata] 0, grad))"

definition node_error :: "real \<Rightarrow> real list \<Rightarrow> Node \<Rightarrow> real \<times> real list \<Rightarrow> real \<times> real list" where
  "node_error w_s ns node acc =
     (if \<not> simple node \<or> inp_edges node = [] \<or> out_edges node = [] then acc
      else
        let inp = fold (\<lambda>idx s. s + ns ! idx) (inp_edges node) 0;
            out = fold (\<lambda>idx s. s + ns ! idx) (out_edges node) 0;
            diff = inp - out;
            range = \<bar>diff\<bar>;
            Es = fst acc + loss range;
            grad = snd acc
        in if grad = [] then (Es, grad)
           else
             let s_grad = w_s * 2 * diff
             in (Es,
                 fold (\<lambda>idx g. g[idx := g ! idx - s_grad]) (out_edges node)
                   (fold (\<lambda>idx g. g[idx := g ! idx + s_grad]) (inp_edges node) grad)))"

definition global_sampling ::
  "real list \<Rightarrow> Node list \<Rightarrow> real \<Rightarrow> real \<Rightarrow> real list \<Rightarrow> real list \<Rightarrow> real \<times> real list" where
  "global_sampling cdata nodes w_c w_s ns grad =
     (let c = course_errors cdata w_c ns grad;
          Ec = fst c;
          s = fold (node_error w_s ns) nodes (0, snd c);
          Es = fst s
      in (Ec * w_c + Es * w_s, snd s))"

subsection \<open>The constraint functions of the global solver\<close>

text \<open>Each returns the constraint value and the gradient vector as it leaves it.\<close>

definition global_interface_constraint :: "real list \<Rightarrow> real list \<Rightarrow> Node \<Rightarrow> real \<times> real list" where
  "global_interface_constraint ns grad node =
     fold (\<lambda>idx acc. (fst acc - ns ! idx,
                       if length (snd acc) > 0 then (snd acc)[idx := - 1] else snd acc))
          (out_edges node)
          (fold (\<lambda>idx acc. (fst acc + ns ! idx,
                             if length (snd acc) > 0 then (snd acc)[idx := 1] else snd acc))
                (inp_edges node) (0, grad))"

definition global_alias_constraint ::
  "index_t list \<Rightarrow> real list \<Rightarrow> real list \<Rightarrow> VarAlias \<Rightarrow> real \<times> real list" where
  "global_alias_constraint aliasToRed rns rgrad alias =
     fold (\<lambda>idx acc. (fst acc + rns ! (aliasToRed ! idx),
                       if length (snd acc) > 0
                       then (snd acc)[aliasToRed ! idx := snd acc ! (aliasToRed ! idx) + 1]
                       else snd acc))
          (neg alias)
          (fold (\<lambda>idx acc. (fst acc - rns ! (aliasToRed ! idx),
                             if length (snd acc) > 0
                             then (snd acc)[aliasToRed ! idx := snd acc ! (aliasToRed ! idx) - 1]
                             else snd acc))
                (pos alias) (min_bound alias, rgrad))"

definition global_urange_constraint ::
  "real list \<Rightarrow> real list \<Rightarrow> real list \<Rightarrow> Node \<Rightarrow> real \<times> real list" where
  "global_urange_constraint wdata ns grad node =
     (let inp_idx = inp node; out_idx = out node;
          res = ns ! inp_idx - ns ! out_idx * wdata ! Node.index node
      in if length grad \<noteq> 0 then
           (let g1 = grad[inp_idx := grad ! inp_idx + 1]
            in (res, g1[out_idx := g1 ! out_idx - wdata ! Node.index node]))
         else (res, grad))"

definition global_lrange_constraint ::
  "real list \<Rightarrow> real list \<Rightarrow> real list \<Rightarrow> Node \<Rightarrow> real \<times> real list" where
  "global_lrange_constraint iwdata ns grad node =
     (let inp_idx = inp node; out_idx = out node;
          res = ns ! out_idx * iwdata ! Node.index node - ns ! inp_idx
      in if length grad \<noteq> 0 then
           (let g1 = grad[inp_idx := grad ! inp_idx - 1]
            in (res, g1[out_idx := g1 ! out_idx + iwdata ! Node.index node]))
         else (res, grad))"

subsection \<open>The finite-difference gradient checker\<close>

text \<open>
  \<^verbatim>\<open>get_gradient_error\<close> is the same text in the three files.  An \<^verbatim>\<open>nlopt::vfunc\<close> is a
  function of the point and the gradient vector it is handed, returning its value and
  the gradient vector as it leaves it; \<^verbatim>\<open>nograd\<close> is the empty vector.  The loop state
  is (\<^verbatim>\<open>max_err\<close>, \<^verbatim>\<open>ns_delta\<close>).
\<close>

type_synonym vfunc = "real list \<Rightarrow> real list \<Rightarrow> real \<times> real list"

definition gradient_error_step ::
  "vfunc \<Rightarrow> real list \<Rightarrow> real list \<Rightarrow> real \<Rightarrow> bool \<Rightarrow> nat \<Rightarrow> real \<times> real list \<Rightarrow> real \<times> real list" where
  "gradient_error_step f ns grad_ana epsilon relative i acc =
     (let max_err = fst acc;
          ns_delta1 = (snd acc)[i := ns ! i + epsilon];
          f_p = fst (f ns_delta1 []);
          ns_delta2 = ns_delta1[i := ns ! i - epsilon];
          f_n = fst (f ns_delta2 []);
          ns_delta3 = ns_delta2[i := ns ! i];
          grad_num = (f_p - f_n) / (2 * epsilon);
          abs_err = \<bar>grad_ana ! i - grad_num\<bar>
      in if \<not> relative then (max max_err abs_err, ns_delta3)
         else
           let rel_err = (if grad_ana ! i > 1 / 10 ^ 8 then abs_err / grad_ana ! i else abs_err)
           in (max max_err rel_err, ns_delta3))"

definition get_gradient_error :: "real list \<Rightarrow> real list \<Rightarrow> vfunc \<Rightarrow> real \<Rightarrow> bool \<Rightarrow> real" where
  "get_gradient_error cdata ns f epsilon relative =
     (let grad_ana = snd (f ns (replicate (length ns) 0))
      in fst (fold (gradient_error_step f ns grad_ana epsilon relative)
                   [0..<length cdata] (0, ns)))"


subsection \<open>The optimiser object as the drivers configure it\<close>

text \<open>
  The optimisation library is an external collaborator.  The drivers only call setters
  on an \<^verbatim>\<open>nlopt::opt\<close> object and then \<^verbatim>\<open>optimize\<close>; the model records what the setters
  were given.  A field keeps the value of a freshly constructed object (no evaluation
  cap, no time cap, no relative tolerance, no bounds, no constraints) until a setter is
  called.  The stopping values fixed by \<^verbatim>\<open>set_nlopt_defaults\<close> (population, initial step,
  stop value, absolute tolerances, weights, vector storage) are constants of the three
  drivers and are not recorded.  A constraint is recorded with the index of the node,
  alias or bound whose address the driver passes as user data.
\<close>

datatype objective = Global_sampling | Global_reduced_sampling | Local_sampling | Rs_sampling

datatype bound_t = FirstMin | FirstMax | NextMin | NextMax | LastMin | LastMax

record DynamicBoundConstraint =
  index :: index_t
  bound_type :: bound_t

datatype constraint_fn =
    Global_interface_constraint nat
  | Global_reduced_constraint nat
  | Global_alias_constraint nat
  | Global_urange_constraint nat
  | Global_lrange_constraint nat
  | Local_constraint DynamicBoundConstraint

record nlopt_opt =
  opt_algorithm :: int
  opt_n :: nat
  opt_local_optimizer :: "(int \<times> real) option"
  opt_min_objective :: "objective option"
  opt_ftol_rel :: real
  opt_maxeval :: int
  opt_maxtime :: real
  opt_lower_bounds :: "real list option"
  opt_upper_bounds :: "real list option"
  opt_equality_constraints :: "(constraint_fn \<times> real) list"
  opt_inequality_constraints :: "(constraint_fn \<times> real) list"

definition new_opt :: "int \<Rightarrow> nat \<Rightarrow> nlopt_opt" where
  "new_opt algo n =
     \<lparr>opt_algorithm = algo, opt_n = n, opt_local_optimizer = None,
      opt_min_objective = None, opt_ftol_rel = 0, opt_maxeval = 0, opt_maxtime = 0,
      opt_lower_bounds = None, opt_upper_bounds = None,
      opt_equality_constraints = [], opt_inequality_constraints = []\<rparr>"

text \<open>
  The part shared by the three \<^verbatim>\<open>solve\<close> functions, from the construction of \<^verbatim>\<open>opt\<close> to
  \<^verbatim>\<open>set_maxtime\<close>.  \<^verbatim>\<open>AUGLAG\<close> is a value of the library's enumeration and a parameter here.
  The fallback evaluation cap is the one literal in which the three texts differ, so it
  is an argument: \<^verbatim>\<open>1e3\<close> in the global and the local solver, \<^verbatim>\<open>1e2\<close> in the short-row
  solver.
\<close>

definition configure_opt ::
  "int \<Rightarrow> int \<Rightarrow> int \<Rightarrow> nat \<Rightarrow> real \<Rightarrow> objective \<Rightarrow> real \<Rightarrow> nat \<Rightarrow> int \<Rightarrow> real \<Rightarrow> nlopt_opt" where
  "configure_opt AUGLAG main_algo local_algo n local_ftol_rel f main_ftol_rel max_eval
       default_maxeval max_time =
     (let opt0 = new_opt main_algo n;
          opt1 = (if main_algo \<ge> AUGLAG
                  then opt0\<lparr>opt_local_optimizer := Some (local_algo, local_ftol_rel)\<rparr>
                  else opt0);
          opt2 = opt1\<lparr>opt_min_objective := Some f\<rparr>;
          opt3 = (if main_ftol_rel \<noteq> 0 then opt2\<lparr>opt_ftol_rel := main_ftol_rel\<rparr> else opt2);
          opt4 = (if max_eval \<noteq> 0 then opt3\<lparr>opt_maxeval := int max_eval\<rparr>
                  else opt3\<lparr>opt_maxeval := default_maxeval\<rparr>)
      in if max_time \<noteq> 0 then opt4\<lparr>opt_maxtime := max_time\<rparr> else opt4)"

subsection \<open>global_sampling.cpp: solve, up to the call of the optimiser\<close>

text \<open>
  The bounds loop of \<^verbatim>\<open>solve\<close>: \<^verbatim>\<open>min_bound\<close> starts at \<^verbatim>\<open>1e3\<close> and \<^verbatim>\<open>max_bound\<close> at 2; after
  the loop \<^verbatim>\<open>min_bound\<close> is raised to at least 2.
\<close>

definition global_bounds :: "real list \<Rightarrow> real \<times> real" where
  "global_bounds cdata =
     (let b = fold (\<lambda>val acc. (min (fst acc) (of_int \<lfloor>val * 0.5\<rfloor>),
                               max (snd acc) (of_int \<lceil>val * 2.0\<rceil>)))
                   cdata (1000, 2)
      in (max 2.0 (fst b), snd b))"

text \<open>
  The locals \<^verbatim>\<open>min_bound\<close> and \<^verbatim>\<open>max_bound\<close> of \<^verbatim>\<open>solve\<close> are written \<open>min_bnd\<close> and
  \<open>max_bnd\<close> below, \<open>min_bound\<close> being the field of \<^typ>\<open>VarAlias\<close>.
  The starting point: a copy of \<^verbatim>\<open>cdata\<close>, perturbed and clipped only under
  \<^verbatim>\<open>gaussian_start\<close>.  \<open>nrand i\<close> stands for the draw of \<^verbatim>\<open>nlopt_nrand(0.0, 1.0)\<close> made for
  position \<open>i\<close>.
\<close>

definition global_initial_point ::
  "real list \<Rightarrow> bool \<Rightarrow> (nat \<Rightarrow> real) \<Rightarrow> real \<Rightarrow> real \<Rightarrow> real list" where
  "global_initial_point cdata gaussian_start nrand min_bnd max_bnd =
     (let nvars = cdata
      in if gaussian_start then
           fold (\<lambda>i nv. nv[i := max min_bnd (min max_bnd (nv ! i + nrand i))])
                [0..<length nvars] nvars
         else nvars)"

definition global_constraints ::
  "global_state \<Rightarrow> real \<Rightarrow> nlopt_opt \<Rightarrow> global_state \<times> nlopt_opt" where
  "global_constraints gs min_bnd opt =
     (let nodes = g_nodes gs; tol = g_constraint_tol gs;
          r1 =
            (if g_use_constraints gs then
               (gs\<lparr>g_aliases :=
                     map (\<lambda>a. if has_constraint a then a\<lparr>min_bound := min_bnd\<rparr> else a)
                         (g_aliases gs)\<rparr>,
                opt\<lparr>opt_equality_constraints :=
                       opt_equality_constraints opt @
                       map (\<lambda>k. (if g_aliasing_level gs = NONE
                                  then Global_interface_constraint k
                                  else Global_reduced_constraint k, tol))
                           (filter (\<lambda>k. has_interface_constraint (nodes ! k) \<and>
                                         \<not> g_reduced gs ! Node.index (nodes ! k))
                                   [0..<length nodes]),
                     opt_inequality_constraints :=
                       opt_inequality_constraints opt @
                       map (\<lambda>k. (Global_alias_constraint k, tol))
                           (filter (\<lambda>k. has_constraint (g_aliases gs ! k))
                                   [0..<length (g_aliases gs)])\<rparr>)
             else (gs, opt))
      in if g_global_shaping gs then
           (fst r1,
            (snd r1)\<lparr>opt_inequality_constraints :=
                       opt_inequality_constraints (snd r1) @
                       concat (map (\<lambda>k. [(Global_urange_constraint k, tol),
                                         (Global_lrange_constraint k, tol)])
                                   (filter (\<lambda>k. has_range_constraint (nodes ! k))
                                           [0..<length nodes]))\<rparr>)
         else r1)"

text \<open>
  \<^verbatim>\<open>solve(verbose)\<close> returns here the state, the configured optimiser and the vector that
  is passed to \<^verbatim>\<open>opt.optimize\<close>.  With \<^verbatim>\<open>verbose\<close> and aliasing the diagnostic call of
  \<^verbatim>\<open>global_reduced_sampling\<close> rewrites \<^verbatim>\<open>nvars\<close> and \<^verbatim>\<open>ngrad\<close>; printing is not modelled.
\<close>

definition global_solve ::
  "int \<Rightarrow> (nat \<Rightarrow> real) \<Rightarrow> bool \<Rightarrow> global_state \<Rightarrow> global_state \<times> nlopt_opt \<times> real list" where
  "global_solve AUGLAG nrand verbose gs_in =
     (let gs1 = (compute_aliases gs_in)\<lparr>g_curr_iter := 0\<rparr>;
          level = g_aliasing_level gs1;
          n = (if level = NONE then length (g_nvars gs1) else length (g_rvars gs1));
          opt1 = configure_opt AUGLAG (g_main_algo gs1) (g_local_algo gs1) n
                   (g_local_ftol_rel gs1)
                   (if level = NONE then Global_sampling else Global_reduced_sampling)
                   (g_main_ftol_rel gs1) (g_max_eval gs1) 1000 (g_max_time gs1);
          b = global_bounds (g_cdata gs1);
          min_bnd = fst b; max_bnd = snd b;
          opt2 = opt1\<lparr>opt_lower_bounds := Some (replicate n min_bnd),
                      opt_upper_bounds := Some (replicate n max_bnd)\<rparr>;
          c = global_constraints gs1 min_bnd opt2;
          gs2 = fst c; opt3 = snd c;
          nvars = global_initial_point (g_cdata gs2) (g_gaussian_start gs2) nrand
                    min_bnd max_bnd;
          rvars = (if level \<noteq> NONE
                   then set_reduced_from_aliases (g_redToAlias gs2) nvars (g_rvars gs2)
                   else g_rvars gs2);
          gs3 = gs2\<lparr>g_nvars := nvars, g_rvars := rvars\<rparr>;
          gs4 = (if verbose \<and> level \<noteq> NONE then
                   (let nv = from_reduced_to_aliases (g_aliases gs3) (g_aliasToRed gs3)
                               rvars nvars
                    in gs3\<lparr>g_nvars := nv,
                           g_ngrad :=
                             (if rvars = [] then g_ngrad gs3
                              else snd (global_sampling (g_cdata gs3) (g_nodes gs3)
                                          (g_w_c gs3) (g_w_s gs3) nv (g_ngrad gs3)))\<rparr>)
                 else gs3);
          gs5 = gs4\<lparr>g_curr_iter := 1\<rparr>
      in (gs5, opt3, if level = NONE then g_nvars gs5 else g_rvars gs5))"

subsection \<open>sr_sampling.cpp\<close>

text \<open>
  \<^verbatim>\<open>simplicity(ns, grad, i0, i1)\<close> and \<^verbatim>\<open>rs_sampling(ns, grad, f_data)\<close>; the statics
  \<^verbatim>\<open>simp_L2\<close>, \<^verbatim>\<open>w_s\<close>, \<^verbatim>\<open>w_w\<close>, \<^verbatim>\<open>cdata\<close> and \<^verbatim>\<open>circular\<close> are arguments.  The loop state of
  \<^verbatim>\<open>rs_sampling\<close> is (\<^verbatim>\<open>Ew\<close>, \<^verbatim>\<open>Es\<close>, \<^verbatim>\<open>grad\<close>).
\<close>

definition simplicity ::
  "bool \<Rightarrow> real \<Rightarrow> real list \<Rightarrow> real list \<Rightarrow> nat \<Rightarrow> nat \<Rightarrow> real \<times> real list" where
  "simplicity simp_L2 w_s ns grad i0 i1 =
     (let diff = ns ! i0 - ns ! i1
      in if simp_L2 then
           (loss diff,
            if length grad \<noteq> 0 then
              (let g1 = grad[i0 := grad ! i0 + w_s * 2 * diff]
               in g1[i1 := g1 ! i1 - w_s * 2 * diff])
            else grad)
         else
           (let sign = (if diff \<ge> 0 then 1 else - 1)
            in (sign * diff,
                if length grad \<noteq> 0 then
                  (let g1 = grad[i0 := w_s * sign]
                   in g1[i1 := - w_s * sign])
                else grad)))"

definition rs_step ::
  "real list \<Rightarrow> bool \<Rightarrow> real \<Rightarrow> real \<Rightarrow> real list \<Rightarrow> nat \<Rightarrow>
     real \<times> real \<times> real list \<Rightarrow> real \<times> real \<times> real list" where
  "rs_step cdata simp_L2 w_w w_s ns i acc =
     (let Ew = fst acc; Es = fst (snd acc); grad = snd (snd acc);
          diff = ns ! i - cdata ! i;
          grad1 = (if length grad > 0 then grad[i := grad ! i + w_w * 2 * diff] else grad)
      in if i > 0 then
           (let r = simplicity simp_L2 w_s ns grad1 i (i - 1)
            in (Ew + loss diff, Es + fst r, snd r))
         else (Ew + loss diff, Es, grad1))"

definition rs_sampling ::
  "real list \<Rightarrow> bool \<Rightarrow> bool \<Rightarrow> real \<Rightarrow> real \<Rightarrow> real list \<Rightarrow> real list \<Rightarrow> real \<times> real list" where
  "rs_sampling cdata circular simp_L2 w_w w_s ns grad =
     (let N = length ns;
          acc = fold (rs_step cdata simp_L2 w_w w_s ns) [0..<N] (0, 0, grad);
          Ew = fst acc;
          c = (if circular
               then (let r = simplicity simp_L2 w_s ns (snd (snd acc)) 0 (N - 1)
                     in (fst (snd acc) + fst r, snd r))
               else snd acc)
      in (Ew * w_w + fst c * w_s, snd c))"

record sr_state =
  s_cdata :: "real list"
  s_circular :: bool
  s_simp_L2 :: bool
  s_w_w :: real
  s_w_s :: real
  s_verbose :: bool
  s_curr_iter :: nat
  s_main_algo :: int
  s_local_algo :: int
  s_main_ftol_rel :: real
  s_max_eval :: nat
  s_max_time :: real
  s_local_ftol_rel :: real
  s_constraint_tol :: real
  s_seed :: nat
  s_gaussian_start :: bool
  s_nvars :: "real list"
  s_ngrad :: "real list"
  s_objval :: real

text \<open>
  \<^verbatim>\<open>solve\<close> of the short-row solver up to \<^verbatim>\<open>opt.optimize\<close>: only a lower bound of 0 is set;
  the loop over \<open>i < n\<close> with \<open>n = nvars.size()\<close> writes \<^verbatim>\<open>max(0.0, cdata[i])\<close>.
\<close>

definition sr_initial_point :: "real list \<Rightarrow> real list \<Rightarrow> bool \<Rightarrow> (nat \<Rightarrow> real) \<Rightarrow> real list" where
  "sr_initial_point cdata nvars gaussian_start nrand =
     (let nv = fold (\<lambda>i nv. nv[i := max 0.0 (cdata ! i)]) [0..<length nvars] nvars
      in if gaussian_start then
           fold (\<lambda>i nv. nv[i := max 0.0 (nv ! i + nrand i)]) [0..<length nv] nv
         else nv)"

definition sr_solve ::
  "int \<Rightarrow> (nat \<Rightarrow> real) \<Rightarrow> sr_state \<Rightarrow> sr_state \<times> nlopt_opt \<times> real list" where
  "sr_solve AUGLAG nrand st =
     (let n = length (s_nvars st);
          opt1 = configure_opt AUGLAG (s_main_algo st) (s_local_algo st) n
                   (s_local_ftol_rel st) Rs_sampling
                   (s_main_ftol_rel st) (s_max_eval st) 100 (s_max_time st);
          opt2 = opt1\<lparr>opt_lower_bounds := Some (replicate n 0)\<rparr>;
          nvars = sr_initial_point (s_cdata st) (s_nvars st) (s_gaussian_start st) nrand;
          st1 = st\<lparr>s_nvars := nvars, s_curr_iter := 1\<rparr>
      in (st1, opt2, nvars))"


subsection \<open>local_sampling.cpp\<close>

text \<open>
  The static state of the local solver, fields prefixed with \<open>l_\<close>.  \<^verbatim>\<open>F\<close> and \<^verbatim>\<open>iF\<close> start at
  2 and 0.5; the initial algorithm identifiers are values of the library's enumeration
  and parameters of the initial state.
\<close>

record local_state =
  l_cdata :: "real list"
  l_ns_start :: real
  l_ns_end :: real
  l_F :: real
  l_iF :: real
  l_w_c :: real
  l_w_s :: real
  l_verbose :: bool
  l_curr_iter :: nat
  l_main_algo :: int
  l_local_algo :: int
  l_use_constraints :: bool
  l_main_ftol_rel :: real
  l_max_eval :: nat
  l_max_time :: real
  l_local_ftol_rel :: real
  l_constraint_tol :: real
  l_seed :: nat
  l_gaussian_start :: bool
  l_nvars :: "real list"
  l_ngrad :: "real list"
  l_objval :: real

definition local_init :: "int \<Rightarrow> int \<Rightarrow> local_state" where
  "local_init AUGLAG LD_LBFGS =
     \<lparr>l_cdata = [], l_ns_start = 0, l_ns_end = 0, l_F = 2, l_iF = 0.5,
      l_w_c = 1, l_w_s = 0.1, l_verbose = False, l_curr_iter = 0,
      l_main_algo = AUGLAG, l_local_algo = LD_LBFGS, l_use_constraints = True,
      l_main_ftol_rel = 0, l_max_eval = 1000, l_max_time = 0,
      l_local_ftol_rel = 1 / 1000, l_constraint_tol = 1 / 10,
      l_seed = 3735928559, l_gaussian_start = False,
      l_nvars = [], l_ngrad = [], l_objval = 0\<rparr>"

definition set_shaping :: "real \<Rightarrow> local_state \<Rightarrow> local_state" where
  "set_shaping shaping st =
     (let st1 = st\<lparr>l_F := max 1.01 (min 2.0 shaping)\<rparr>
      in st1\<lparr>l_iF := 1.0 / l_F st1\<rparr>)"

text \<open>
  \<^verbatim>\<open>get_constraints(use_first, use_last)\<close> sizes the vector for \<open>N = cdata.size()\<close> and
  fills it in order.  With \<open>N = 0\<close> the size \<open>2*N-2\<close> or the index \<open>N-1\<close> wraps around
  or a write falls outside the vector: no result.
\<close>

definition get_constraints :: "nat \<Rightarrow> bool \<Rightarrow> bool \<Rightarrow> DynamicBoundConstraint list option" where
  "get_constraints N use_first use_last =
     (if N = 0 then None
      else Some
        ((if use_first
          then [\<lparr>DynamicBoundConstraint.index = 0, bound_type = FirstMin\<rparr>,
                \<lparr>DynamicBoundConstraint.index = 0, bound_type = FirstMax\<rparr>]
          else []) @
         concat (map (\<lambda>i. [\<lparr>DynamicBoundConstraint.index = i, bound_type = NextMin\<rparr>,
                            \<lparr>DynamicBoundConstraint.index = i, bound_type = NextMax\<rparr>])
                     [0..<N - 1]) @
         (if use_last
          then [\<lparr>DynamicBoundConstraint.index = N - 1, bound_type = LastMin\<rparr>,
                \<lparr>DynamicBoundConstraint.index = N - 1, bound_type = LastMax\<rparr>]
          else [])))"

text \<open>
  The bounds loop of \<^verbatim>\<open>solve\<close>, for one \<open>i\<close>: the two boxes, their intersection and the
  starting value \<^verbatim>\<open>cw\<close> moved into it by the \<^verbatim>\<open>if\<close> / \<^verbatim>\<open>else if\<close> of the source.
\<close>

definition local_box :: "real \<Rightarrow> real \<Rightarrow> real \<Rightarrow> real \<Rightarrow> nat \<Rightarrow> nat \<Rightarrow> real \<times> real" where
  "local_box ns_start ns_end F iF n i =
     (let nss_min = max 2.0 (ns_start * iF ^ (i + 1));
          nss_max = min 10000 (ns_start * F ^ (i + 1));
          nse_min = max 2.0 (ns_end * iF ^ (n - i));
          nse_max = min 10000 (ns_end * F ^ (n - i))
      in (max nss_min nse_min, min nss_max nse_max))"

definition local_start_value :: "real \<Rightarrow> real \<Rightarrow> real \<Rightarrow> real" where
  "local_start_value cw lo hi = (if cw < lo then lo else if cw > hi then hi else cw)"

definition local_bounds_step ::
  "local_state \<Rightarrow> nat \<Rightarrow> nat \<Rightarrow> real list \<times> real list \<times> real list \<Rightarrow>
     real list \<times> real list \<times> real list" where
  "local_bounds_step st n i acc =
     (let ns_min = fst acc; ns_max = fst (snd acc); nvars = snd (snd acc);
          b = local_box (l_ns_start st) (l_ns_end st) (l_F st) (l_iF st) n i
      in (ns_min[i := fst b], ns_max[i := snd b],
          nvars[i := local_start_value (l_cdata st ! i) (fst b) (snd b)]))"

definition local_solve ::
  "int \<Rightarrow> (nat \<Rightarrow> real) \<Rightarrow> local_state \<Rightarrow> (local_state \<times> nlopt_opt \<times> real list) option" where
  "local_solve AUGLAG nrand st =
     (let n = length (l_nvars st);
          opt1 = configure_opt AUGLAG (l_main_algo st) (l_local_algo st) n
                   (l_local_ftol_rel st) Local_sampling
                   (l_main_ftol_rel st) (l_max_eval st) 1000 (l_max_time st);
          acc = fold (local_bounds_step st n) [0..<n]
                     (replicate n 0, replicate n 0, l_nvars st);
          ns_min = fst acc; ns_max = fst (snd acc); nvars1 = snd (snd acc);
          opt2 = opt1\<lparr>opt_lower_bounds := Some ns_min, opt_upper_bounds := Some ns_max\<rparr>;
          cs = (if l_use_constraints st
                then get_constraints (length (l_cdata st)) False False
                else Some [])
      in case cs of
           None \<Rightarrow> None
         | Some constraints \<Rightarrow>
             (let opt3 = opt2\<lparr>opt_inequality_constraints :=
                               opt_inequality_constraints opt2 @
                               map (\<lambda>c. (Local_constraint c, l_constraint_tol st)) constraints\<rparr>;
                  nvars2 = (if l_gaussian_start st then
                              fold (\<lambda>i nv. nv[i := max (ns_min ! i)
                                                        (min (ns_max ! i) (nv ! i + nrand i))])
                                   [0..<length nvars1] nvars1
                            else nvars1)
              in Some (st\<lparr>l_nvars := nvars2, l_curr_iter := 1\<rparr>, opt3, nvars2)))"

text \<open>
  The exported functions of the local solver as calls on the state.  A call whose index
  is outside its vector has undefined behaviour and yields no successor state.
  \<^verbatim>\<open>Solve\<close> carries what the optimiser, an external collaborator, leaves behind: the
  final \<^verbatim>\<open>nvars\<close>, \<^verbatim>\<open>objval\<close> and the evaluation counter.  The readers and
  \<^verbatim>\<open>check_gradient\<close> (which restores \<^verbatim>\<open>verbose\<close>) leave the state as it is.
\<close>

datatype local_call =
    Reset
  | Allocate nat
  | Solve "nat \<Rightarrow> real" "real list" real nat
  | Set_cdata nat real
  | Set_ns_start real
  | Set_ns_end real
  | Set_shaping real
  | Set_weights real real
  | Set_seed int
  | Use_noise bool
  | Set_verbose bool
  | Set_use_constraints bool
  | Set_main_algorithm int
  | Set_local_algorithm int
  | Set_max_eval nat
  | Set_max_time real
  | Set_main_ftol_rel real
  | Set_local_ftol_rel real
  | Set_constraint_tol real
  | Get_variable_value nat
  | Reader

definition local_reset :: "local_state \<Rightarrow> local_state" where
  "local_reset st = st\<lparr>l_nvars := [], l_cdata := []\<rparr>"

fun local_step :: "int \<Rightarrow> local_call \<Rightarrow> local_state \<Rightarrow> local_state option" where
  "local_step AUGLAG Reset st = Some (local_reset st)"
| "local_step AUGLAG (Allocate num_edges) st =
     Some ((local_reset st)\<lparr>l_nvars := replicate num_edges 0,
                             l_ngrad := resize num_edges (l_ngrad st),
                             l_cdata := replicate num_edges 0\<rparr>)"
| "local_step AUGLAG (Solve nrand x_final objval_final iter_final) st =
     (case local_solve AUGLAG nrand st of
        None \<Rightarrow> None
      | Some r \<Rightarrow> Some ((fst r)\<lparr>l_nvars := x_final, l_objval := objval_final,
                                 l_curr_iter := iter_final\<rparr>))"
| "local_step AUGLAG (Set_cdata i v) st =
     (if i < length (l_cdata st) then Some (st\<lparr>l_cdata := (l_cdata st)[i := v]\<rparr>) else None)"
| "local_step AUGLAG (Set_ns_start v) st = Some (st\<lparr>l_ns_start := v\<rparr>)"
| "local_step AUGLAG (Set_ns_end v) st = Some (st\<lparr>l_ns_end := v\<rparr>)"
| "local_step AUGLAG (Set_shaping v) st = Some (set_shaping v st)"
| "local_step AUGLAG (Set_weights wc ws) st = Some (st\<lparr>l_w_c := wc, l_w_s := ws\<rparr>)"
| "local_step AUGLAG (Set_seed sd) st = Some (st\<lparr>l_seed := nat (sd mod 2 ^ 32)\<rparr>)"
| "local_step AUGLAG (Use_noise b) st = Some (st\<lparr>l_gaussian_start := b\<rparr>)"
| "local_step AUGLAG (Set_verbose b) st = Some (st\<lparr>l_verbose := b\<rparr>)"
| "local_step AUGLAG (Set_use_constraints b) st = Some (st\<lparr>l_use_constraints := b\<rparr>)"
| "local_step AUGLAG (Set_main_algorithm a) st = Some (st\<lparr>l_main_algo := a\<rparr>)"
| "local_step AUGLAG (Set_local_algorithm a) st = Some (st\<lparr>l_local_algo := a\<rparr>)"
| "local_step AUGLAG (Set_max_eval k) st = Some (st\<lparr>l_max_eval := k\<rparr>)"
| "local_step AUGLAG (Set_max_time t) st = Some (st\<lparr>l_max_time := t\<rparr>)"
| "local_step AUGLAG (Set_main_ftol_rel t) st = Some (st\<lparr>l_main_ftol_rel := t\<rparr>)"
| "local_step AUGLAG (Set_local_ftol_rel t) st = Some (st\<lparr>l_local_ftol_rel := t\<rparr>)"
| "local_step AUGLAG (Set_constraint_tol t) st = Some (st\<lparr>l_constraint_tol := t\<rparr>)"
| "local_step AUGLAG (Get_variable_value i) st =
     (if i < length (l_nvars st) then Some st else None)"
| "local_step AUGLAG Reader st = Some st"

inductive local_reachable :: "int \<Rightarrow> int \<Rightarrow> local_state \<Rightarrow> bool"
  for AUGLAG :: int and LD_LBFGS :: int where
    start: "local_reachable AUGLAG LD_LBFGS (local_init AUGLAG LD_LBFGS)"
  | call: "local_reachable AUGLAG LD_LBFGS st \<Longrightarrow> local_step AUGLAG c st = Some st'
             \<Longrightarrow> local_reachable AUGLAG LD_LBFGS st'"

text \<open>
  The static state of \<^verbatim>\<open>global_sampling.cpp\<close> at program start; the two algorithm
  identifiers are parameters.  Vectors start empty, scalars without initialiser at zero.
\<close>

definition global_init :: "int \<Rightarrow> int \<Rightarrow> global_state" where
  "global_init AUGLAG_EQ LD_LBFGS =
     \<lparr>g_cdata = [], g_wdata = [], g_iwdata = [], g_nodes = [], g_w_c = 1, g_w_s = 0.1,
      g_aliases = [], g_aliased = False, g_reduced = [], g_aliasing_level = NONE,
      g_redToAlias = [], g_aliasToRed = [], g_rvars = [],
      g_verbose = False, g_curr_iter = 0, g_main_algo = AUGLAG_EQ, g_local_algo = LD_LBFGS,
      g_use_constraints = True, g_main_ftol_rel = 0, g_max_eval = 1000, g_max_time = 0,
      g_local_ftol_rel = 1 / 1000, g_constraint_tol = 1 / 10, g_seed = 3735928559,
      g_gaussian_start = False, g_global_shaping = False,
      g_nvars = [], g_ngrad = [], g_objval = 0\<rparr>"

text \<open>
  The input setters of the global solver that shape the graph.  \<^verbatim>\<open>allocate\<close> clears the
  vectors (\<^verbatim>\<open>reset\<close>) and sizes them; \<^verbatim>\<open>ngrad\<close> is not cleared, so \<^verbatim>\<open>resize\<close> keeps its old
  prefix.  A default-constructed node has empty edge lists; its two scalar members
  are value-initialised by \<^verbatim>\<open>resize\<close>.  An index outside its vector is undefined
  behaviour: no successor state.
\<close>

definition global_reset :: "global_state \<Rightarrow> global_state" where
  "global_reset gs =
     gs\<lparr>g_nvars := [], g_cdata := [], g_aliases := [], g_reduced := [], g_wdata := [],
        g_iwdata := [], g_nodes := [], g_aliased := False\<rparr>"

definition allocate :: "nat \<Rightarrow> nat \<Rightarrow> global_state \<Rightarrow> global_state" where
  "allocate num_edges num_nodes gs =
     (global_reset gs)
       \<lparr>g_nvars := replicate num_edges 0,
        g_ngrad := resize num_edges (g_ngrad gs),
        g_cdata := replicate num_edges 0,
        g_aliases := replicate num_edges noAlias,
        g_wdata := replicate num_nodes 0,
        g_iwdata := replicate num_nodes 0,
        g_nodes := replicate num_nodes
                     \<lparr>Node.index = 0, simple = False, inp_edges = [], out_edges = []\<rparr>,
        g_reduced := replicate num_nodes False\<rparr>"

definition resize_idx :: "nat \<Rightarrow> index_t list \<Rightarrow> index_t list" where
  "resize_idx k xs = take k xs @ replicate (k - length xs) 0"

definition allocate_node ::
  "index_t \<Rightarrow> bool \<Rightarrow> nat \<Rightarrow> nat \<Rightarrow> global_state \<Rightarrow> global_state option" where
  "allocate_node i smp num_inputs num_outputs gs =
     (if i < length (g_nodes gs) then
        Some (gs\<lparr>g_nodes := (g_nodes gs)[i := (g_nodes gs ! i)
                    \<lparr>Node.index := i, simple := smp,
                     inp_edges := resize_idx num_inputs (inp_edges (g_nodes gs ! i)),
                     out_edges := resize_idx num_outputs (out_edges (g_nodes gs ! i))\<rparr>],
                 g_aliased := False\<rparr>)
      else None)"

definition set_node_input ::
  "index_t \<Rightarrow> index_t \<Rightarrow> index_t \<Rightarrow> global_state \<Rightarrow> global_state option" where
  "set_node_input node_index i edge_index gs =
     (if node_index < length (g_nodes gs) \<and> i < length (inp_edges (g_nodes gs ! node_index))
      then Some (gs\<lparr>g_nodes := (g_nodes gs)[node_index := (g_nodes gs ! node_index)
                        \<lparr>inp_edges := (inp_edges (g_nodes gs ! node_index))[i := edge_index]\<rparr>],
                     g_aliased := False\<rparr>)
      else None)"

definition set_node_output ::
  "index_t \<Rightarrow> index_t \<Rightarrow> index_t \<Rightarrow> global_state \<Rightarrow> global_state option" where
  "set_node_output node_index i edge_index gs =
     (if node_index < length (g_nodes gs) \<and> i < length (out_edges (g_nodes gs ! node_index))
      then Some (gs\<lparr>g_nodes := (g_nodes gs)[node_index := (g_nodes gs ! node_index)
                        \<lparr>out_edges := (out_edges (g_nodes gs ! node_index))[i := edge_index]\<rparr>],
                     g_aliased := False\<rparr>)
      else None)"

text \<open>\<^verbatim>\<open>set_aliasing_level\<close> casts its argument to the enumeration; only the four named
  values are modelled.\<close>

definition set_aliasing_level :: "AliasingLevel \<Rightarrow> global_state \<Rightarrow> global_state" where
  "set_aliasing_level level gs = gs\<lparr>g_aliasing_level := level, g_aliased := False\<rparr>"

definition set_cdata :: "index_t \<Rightarrow> real \<Rightarrow> global_state \<Rightarrow> global_state option" where
  "set_cdata i v gs =
     (if i < length (g_cdata gs) then Some (gs\<lparr>g_cdata := (g_cdata gs)[i := v]\<rparr>) else None)"

text \<open>The static state of \<^verbatim>\<open>sr_sampling.cpp\<close> at program start; both algorithm
  identifiers start as the same value of the library's enumeration.\<close>

definition sr_init :: "int \<Rightarrow> sr_state" where
  "sr_init LD_LBFGS =
     \<lparr>s_cdata = [], s_circular = False, s_simp_L2 = True, s_w_w = 1, s_w_s = 0.1,
      s_verbose = False, s_curr_iter = 0, s_main_algo = LD_LBFGS, s_local_algo = LD_LBFGS,
      s_main_ftol_rel = 0, s_max_eval = 1000, s_max_time = 0,
      s_local_ftol_rel = 1 / 1000, s_constraint_tol = 1 / 10, s_seed = 3735928559,
      s_gaussian_start = False, s_nvars = [], s_ngrad = [], s_objval = 0\<rparr>"

text \<open>\<^verbatim>\<open>allocate\<close> and \<^verbatim>\<open>set_max_eval\<close> of the short-row solver.\<close>

definition sr_allocate :: "nat \<Rightarrow> sr_state \<Rightarrow> sr_state" where
  "sr_allocate num_samples st =
     st\<lparr>s_nvars := replicate num_samples 0,
        s_ngrad := resize num_samples (s_ngrad st),
        s_cdata := replicate num_samples 0\<rparr>"

definition sr_set_max_eval :: "nat \<Rightarrow> sr_state \<Rightarrow> sr_state" where
  "sr_set_max_eval k st = st\<lparr>s_max_eval := k\<rparr>"

subsection \<open>Notions used in the statements\<close>

text \<open>
  The validity precondition of an aliasing: every index in the \<open>pos\<close> or \<open>neg\<close> list of
  an alias is an index of the alias vector and is itself not aliased.
\<close>

definition aliasing_valid :: "VarAlias list \<Rightarrow> bool" where
  "aliasing_valid aliases \<longleftrightarrow>
     (\<forall>a \<in> set aliases. \<forall>j \<in> set (pos a @ neg a).
        j < length aliases \<and> alias_empty (aliases ! j))"

text \<open>The inner product over the length of the first vector.\<close>

definition dot :: "real list \<Rightarrow> real list \<Rightarrow> real" where
  "dot xs ys = (\<Sum>i<length xs. xs ! i * ys ! i)"

text \<open>The value that the gather loop stores at position \<open>i\<close>.\<close>

definition full_value :: "VarAlias list \<Rightarrow> index_t list \<Rightarrow> real list \<Rightarrow> index_t \<Rightarrow> real" where
  "full_value aliases aliasToRed rns i =
     (if alias_empty (aliases ! i) then rns ! (aliasToRed ! i)
      else gather_value aliasToRed rns (aliases ! i))"

text \<open>All reduced positions touched for the full position \<open>i\<close> lie below \<open>R\<close>.\<close>

definition entry_in_range :: "VarAlias list \<Rightarrow> index_t list \<Rightarrow> nat \<Rightarrow> index_t \<Rightarrow> bool" where
  "entry_in_range aliases aliasToRed R i \<longleftrightarrow>
     (if alias_empty (aliases ! i) then aliasToRed ! i < R
      else \<forall>idx \<in> set (pos (aliases ! i) @ neg (aliases ! i)). aliasToRed ! idx < R)"

text \<open>
  The aliasing of a node with inputs 0, 1 and outputs 2, 3 at level \<^verbatim>\<open>COMPLEX\<close>:
  variable 2 is the sum of 0 and 1 minus 3.
\<close>

definition ex_aliases :: "VarAlias list" where
  "ex_aliases =
     [\<lparr>VarAlias.index = 0, pos = [], neg = [], min_bound = 0\<rparr>,
      \<lparr>VarAlias.index = 1, pos = [], neg = [], min_bound = 0\<rparr>,
      \<lparr>VarAlias.index = 2, pos = [0, 1], neg = [3], min_bound = 0\<rparr>,
      \<lparr>VarAlias.index = 3, pos = [], neg = [], min_bound = 0\<rparr>]"

text \<open>
  The nodes that contribute to the simplicity term of the global objective, and the
  difference between the sum over the inputs and the sum over the outputs of a node.
\<close>

definition node_active :: "Node \<Rightarrow> bool" where
  "node_active node \<longleftrightarrow> simple node \<and> inp_edges node \<noteq> [] \<and> out_edges node \<noteq> []"

definition node_diff :: "real list \<Rightarrow> Node \<Rightarrow> real" where
  "node_diff ns node =
     sum_list (map (\<lambda>idx. ns ! idx) (inp_edges node)) -
     sum_list (map (\<lambda>idx. ns ! idx) (out_edges node))"

definition edges_below :: "nat \<Rightarrow> Node list \<Rightarrow> bool" where
  "edges_below E nodes \<longleftrightarrow>
     (\<forall>node \<in> set nodes. \<forall>idx \<in> set (inp_edges node @ out_edges node). idx < E)"

definition node_term :: "real \<Rightarrow> real list \<Rightarrow> Node \<Rightarrow> nat \<Rightarrow> real" where
  "node_term w_s ns node i =
     w_s * 2 * node_diff ns node *
       (real (count_list (inp_edges node) i) - real (count_list (out_edges node) i))"

text \<open>A chain of three edges: a simple node between edges 0 and 1, an interface node
  between edges 1 and 2.\<close>

definition ex_nodes :: "Node list" where
  "ex_nodes =
     [\<lparr>Node.index = 0, simple = True, inp_edges = [0], out_edges = [1]\<rparr>,
      \<lparr>Node.index = 1, simple = False, inp_edges = [1], out_edges = [2]\<rparr>]"

text \<open>
  The state after \<^verbatim>\<open>allocate(4, 1)\<close>, \<^verbatim>\<open>allocate_node(0, false, 2, 2)\<close>, the inputs 0 and 1,
  the outputs 2 and 3, \<^verbatim>\<open>set_aliasing_level(COMPLEX)\<close> and the targets 3, 4, 2, 5: one
  interface node with two inputs and two outputs.  The two algorithm identifiers are
  those of the library's header for \<^verbatim>\<open>AUGLAG_EQ\<close> and \<^verbatim>\<open>LD_LBFGS\<close>; nothing below depends on
  them.
\<close>

definition ex_complex_state :: global_state where
  "ex_complex_state =
     (set_aliasing_level COMPLEX (allocate 4 1 (global_init 37 11)))
       \<lparr>g_nodes := [\<lparr>Node.index = 0, simple = False, inp_edges = [0, 1], out_edges = [2, 3]\<rparr>],
        g_cdata := [3, 4, 2, 5]\<rparr>"

text \<open>
  The quantities of the gradient checker: the analytic gradient that \<open>f\<close> writes into a
  zeroed vector, the central difference in direction \<open>i\<close>, and the term that the loop of
  \<^verbatim>\<open>get_gradient_error\<close> feeds into the running maximum in relative mode.
\<close>

definition grad_ana :: "vfunc \<Rightarrow> real list \<Rightarrow> real list" where
  "grad_ana f ns = snd (f ns (replicate (length ns) 0))"

definition grad_num :: "vfunc \<Rightarrow> real list \<Rightarrow> real \<Rightarrow> nat \<Rightarrow> real" where
  "grad_num f ns epsilon i =
     (fst (f (ns[i := ns ! i + epsilon]) []) - fst (f (ns[i := ns ! i - epsilon]) []))
       / (2 * epsilon)"

definition rel_err :: "vfunc \<Rightarrow> real list \<Rightarrow> real \<Rightarrow> nat \<Rightarrow> real" where
  "rel_err f ns epsilon i =
     (if grad_ana f ns ! i > 1 / 10 ^ 8
      then \<bar>grad_ana f ns ! i - grad_num f ns epsilon i\<bar> / grad_ana f ns ! i
      else \<bar>grad_ana f ns ! i - grad_num f ns epsilon i\<bar>)"

text \<open>A function of one variable with its exact derivative: minus the cube.\<close>

definition ex_cubic :: vfunc where
  "ex_cubic ns grad =
     (- ((ns ! 0) ^ 3), if grad = [] then [] else grad[0 := - 3 * ((ns ! 0) ^ 2)])"

text \<open>Draws of the noise source that are all zero.\<close>

definition no_noise :: "nat \<Rightarrow> real" where
  "no_noise i = 0"

text \<open>
  Three states of the global solver with a single edge and no node, with the targets
  4000, 1 and 7, and the short-row solver with three samples and \<^verbatim>\<open>max_eval\<close> set to 0.
\<close>

definition ex_single_edge :: "real \<Rightarrow> global_state" where
  "ex_single_edge c = (allocate 1 0 (global_init 37 11))\<lparr>g_cdata := [c]\<rparr>"

definition ex_sr_state :: sr_state where
  "ex_sr_state = (sr_set_max_eval 0 (sr_allocate 3 (sr_init 11)))\<lparr>s_cdata := [3, - 1, 2]\<rparr>"

definition ex_local_state :: local_state where
  "ex_local_state =
     (local_init 36 11)\<lparr>l_cdata := [4, 8, 12, 16], l_nvars := [0, 0, 0, 0],
                         l_ns_start := 4, l_ns_end := 16, l_max_eval := 0\<rparr>"

text \<open>
  One interface node with the inputs 0, 1 and the outputs 2, 3, 4 at level \<^verbatim>\<open>COMPLEX\<close>,
  with the targets 3, 4, 2, 5, 6.
\<close>

definition ex_three_outputs :: global_state where
  "ex_three_outputs =
     (set_aliasing_level COMPLEX (allocate 5 1 (global_init 37 11)))
       \<lparr>g_nodes := [\<lparr>Node.index = 0, simple = False, inp_edges = [0, 1],
                      out_edges = [2, 3, 4]\<rparr>],
        g_cdata := [3, 4, 2, 5, 6]\<rparr>"

text \<open>The two bounds of the global solver as functions of the targets.\<close>

definition global_lower :: "real list \<Rightarrow> real" where
  "global_lower cdata = max 2 (min 1000 (Min ((\<lambda>c. real_of_int \<lfloor>c * 0.5\<rfloor>) ` set cdata)))"

definition global_upper :: "real list \<Rightarrow> real" where
  "global_upper cdata = max 2 (Max ((\<lambda>c. real_of_int \<lceil>c * 2.0\<rceil>) ` set cdata))"

text \<open>The aliases that \<^verbatim>\<open>compute_aliases\<close> produces for that node.\<close>

definition ex_three_aliases :: "VarAlias list" where
  "ex_three_aliases =
     [\<lparr>VarAlias.index = 0, pos = [], neg = [], min_bound = 0\<rparr>,
      \<lparr>VarAlias.index = 1, pos = [], neg = [], min_bound = 0\<rparr>,
      \<lparr>VarAlias.index = 2, pos = [0, 1], neg = [3, 4], min_bound = 0\<rparr>,
      \<lparr>VarAlias.index = 3, pos = [], neg = [], min_bound = 0\<rparr>,
      \<lparr>VarAlias.index = 4, pos = [], neg = [], min_bound = 0\<rparr>]"



section \<open>Properties\<close>

subsection \<open>Gather and scatter are transposes of each other\<close>

lemma fold_add_sum_list: "fold (\<lambda>idx val. val + f idx) xs (v::real) = v + sum_list (map f xs)"
  by (induction xs arbitrary: v) simp_all

lemma fold_sub_sum_list: "fold (\<lambda>idx val. val - f idx) xs (v::real) = v - sum_list (map f xs)"
  by (induction xs arbitrary: v) simp_all

lemma gather_value_sum:
  "gather_value a2r rns alias =
     sum_list (map (\<lambda>idx. rns ! (a2r ! idx)) (pos alias)) - sum_list (map (\<lambda>idx. rns ! (a2r ! idx)) (neg alias))"
  by (simp add: gather_value_def fold_add_sum_list fold_sub_sum_list)

lemma fold_upt_update_length:
  "length (fold (\<lambda>i xs. xs[i := f i]) [0..<n] xs) = length xs"
  by (induction n) simp_all

lemma fold_upt_update_nth:
  "n \<le> length xs \<Longrightarrow> k < length xs \<Longrightarrow>
     fold (\<lambda>i xs. xs[i := f i]) [0..<n] xs ! k = (if k < n then f k else xs ! k)"
  by (induction n) (auto simp: fold_upt_update_length nth_list_update less_Suc_eq)

lemma from_reduced_to_aliases_eq:
  "from_reduced_to_aliases aliases a2r rns ns = fold (\<lambda>i xs. xs[i := full_value aliases a2r rns i]) [0..<length ns] ns"
  unfolding from_reduced_to_aliases_def full_value_def
  by (rule arg_cong[where f="\<lambda>f. fold f _ _"]) (auto simp: fun_eq_iff)

lemma from_reduced_to_aliases_length:
  "length (from_reduced_to_aliases aliases a2r rns ns) = length ns"
  by (simp add: from_reduced_to_aliases_eq fold_upt_update_length)

lemma from_reduced_to_aliases_nth:
  "i < length ns \<Longrightarrow> from_reduced_to_aliases aliases a2r rns ns ! i = full_value aliases a2r rns i"
  by (simp add: from_reduced_to_aliases_eq fold_upt_update_nth)

lemma dot_update_add:
  assumes "k < length rs"
  shows "dot (rs[k := rs ! k + v]) r = dot rs r + v * r ! k"
proof -
  have "dot (rs[k := rs ! k + v]) r = (\<Sum>j<length rs. rs ! j * r ! j + (if j = k then v * r ! k else 0))"
    unfolding dot_def by (auto intro!: sum.cong simp: nth_list_update algebra_simps)
  also have "\<dots> = dot rs r + (\<Sum>j<length rs. if j = k then v * r ! k else 0)"
    by (simp add: sum.distrib dot_def)
  also have "(\<Sum>j<length rs. if j = k then v * r ! k else 0) = v * r ! k"
    using assms by (simp add: sum.delta')
  finally show ?thesis .
qed

lemma dot_update_sub:
  assumes "k < length rs"
  shows "dot (rs[k := rs ! k - v]) r = dot rs r - v * r ! k"
  using dot_update_add[OF assms, of "- v" r] by simp

lemma fold_scatter_add:
  "\<forall>idx \<in> set xs. a2r ! idx < length rs \<Longrightarrow>
   length (fold (\<lambda>idx r. r[a2r ! idx := r ! (a2r ! idx) + v]) xs rs) = length rs \<and>
   dot (fold (\<lambda>idx r. r[a2r ! idx := r ! (a2r ! idx) + v]) xs rs) r
     = dot rs r + v * sum_list (map (\<lambda>idx. r ! (a2r ! idx)) xs)"
proof (induction xs arbitrary: rs)
  case Nil
  then show ?case by simp
next
  case (Cons a xs)
  let ?rs = "rs[a2r ! a := rs ! (a2r ! a) + v]"
  from Cons.prems have a: "a2r ! a < length rs" by simp
  from Cons.prems have "\<forall>idx \<in> set xs. a2r ! idx < length ?rs" by simp
  from Cons.IH[OF this] dot_update_add[OF a, of v r] show ?case
    by (simp add: distrib_left right_diff_distrib)
qed

lemma fold_scatter_sub:
  "\<forall>idx \<in> set xs. a2r ! idx < length rs \<Longrightarrow>
   length (fold (\<lambda>idx r. r[a2r ! idx := r ! (a2r ! idx) - v]) xs rs) = length rs \<and>
   dot (fold (\<lambda>idx r. r[a2r ! idx := r ! (a2r ! idx) - v]) xs rs) r
     = dot rs r - v * sum_list (map (\<lambda>idx. r ! (a2r ! idx)) xs)"
proof (induction xs arbitrary: rs)
  case Nil
  then show ?case by simp
next
  case (Cons a xs)
  let ?rs = "rs[a2r ! a := rs ! (a2r ! a) - v]"
  from Cons.prems have a: "a2r ! a < length rs" by simp
  from Cons.prems have "\<forall>idx \<in> set xs. a2r ! idx < length ?rs" by simp
  from Cons.IH[OF this] dot_update_sub[OF a, of v r] show ?case
    by (simp add: distrib_left right_diff_distrib)
qed

lemma spread_entry_length:
  assumes "entry_in_range aliases a2r (length rs) i"
  shows "length (spread_entry a2r (aliases ! i) i v rs) = length rs"
  using assms fold_scatter_add[of "pos (aliases ! i)" a2r rs v "[]"]
    fold_scatter_sub[of "neg (aliases ! i)" a2r
      "fold (\<lambda>idx r. r[a2r ! idx := r ! (a2r ! idx) + v]) (pos (aliases ! i)) rs" v "[]"]
  by (auto simp: spread_entry_def entry_in_range_def)

lemma spread_entry_dot:
  assumes "entry_in_range aliases a2r (length rs) i"
  shows "dot (spread_entry a2r (aliases ! i) i v rs) r = dot rs r + v * full_value aliases a2r r i"
proof (cases "alias_empty (aliases ! i)")
  case True
  then show ?thesis using assms
    by (simp add: spread_entry_def entry_in_range_def full_value_def dot_update_add)
next
  case False
  let ?p = "fold (\<lambda>idx r. r[a2r ! idx := r ! (a2r ! idx) + v]) (pos (aliases ! i)) rs"
  from False assms have p: "\<forall>idx \<in> set (pos (aliases ! i)). a2r ! idx < length rs"
    and n: "\<forall>idx \<in> set (neg (aliases ! i)). a2r ! idx < length rs"
    by (auto simp: entry_in_range_def)
  from fold_scatter_add[OF p, of v r] have lp: "length ?p = length rs"
    and dp: "dot ?p r = dot rs r + v * sum_list (map (\<lambda>idx. r ! (a2r ! idx)) (pos (aliases ! i)))"
    by simp_all
  from n lp have n': "\<forall>idx \<in> set (neg (aliases ! i)). a2r ! idx < length ?p" by simp
  from fold_scatter_sub[OF n', of v r] dp False show ?thesis
    by (simp add: spread_entry_def full_value_def gather_value_sum algebra_simps)
qed

lemma scatter_fold_dot:
  assumes "\<forall>i<n. entry_in_range aliases a2r (length rs) i"
  shows "length (fold (\<lambda>i r. spread_entry a2r (aliases ! i) i (g ! i) r) [0..<n] rs) = length rs \<and>
         dot (fold (\<lambda>i r. spread_entry a2r (aliases ! i) i (g ! i) r) [0..<n] rs) r
           = dot rs r + (\<Sum>i<n. g ! i * full_value aliases a2r r i)"
  using assms
proof (induction n)
  case 0
  then show ?case by simp
next
  case (Suc n)
  let ?f = "fold (\<lambda>i r. spread_entry a2r (aliases ! i) i (g ! i) r) [0..<n] rs"
  from Suc have ih: "length ?f = length rs"
    "dot ?f r = dot rs r + (\<Sum>i<n. g ! i * full_value aliases a2r r i)" by simp_all
  from Suc.prems ih have "entry_in_range aliases a2r (length ?f) n" by simp
  from spread_entry_dot[OF this, of "g ! n" r] spread_entry_length[OF this, of "g ! n"] ih
  show ?case by simp
qed

lemma dot_replicate_zero: "dot (replicate n 0) r = 0"
  by (simp add: dot_def)

lemma create_mappings_snoc:
  "create_mappings (xs @ [a]) = mapping_step a (create_mappings xs)"
  by (simp add: create_mappings_def)

lemma create_mappings_inv:
  "length (snd (create_mappings xs)) = length xs \<and>
   (\<forall>i<length xs. alias_empty (xs ! i) \<longrightarrow> snd (create_mappings xs) ! i < length (fst (create_mappings xs)))"
proof (induction xs rule: rev_induct)
  case Nil
  then show ?case by (simp add: create_mappings_def)
next
  case (snoc a xs)
  then show ?case
    by (auto simp: create_mappings_snoc mapping_step_def Let_def nth_append less_Suc_eq)
qed

lemma valid_entries_in_range:
  assumes "aliasing_valid aliases" "i < length aliases"
  shows "entry_in_range aliases (snd (create_mappings aliases)) (length (fst (create_mappings aliases))) i"
  using assms create_mappings_inv[of aliases]
  unfolding entry_in_range_def aliasing_valid_def
  by (metis nth_mem)

text \<open>
  Claim C1.  For every valid aliasing, with \<^verbatim>\<open>aliasToRed\<close> as \<^verbatim>\<open>compute_aliases\<close> builds it,
  every reduced vector \<open>r\<close> of the reduced length and every full vector \<open>g\<close> of the full
  length: the sum of \<open>g\<^sub>i * x\<^sub>i\<close> equals the sum of \<open>rg\<^sub>j * r\<^sub>j\<close>, where \<open>x\<close> is what
  \<^verbatim>\<open>from_reduced_to_aliases\<close> gathers from \<open>r\<close> and \<open>rg\<close> is what \<^verbatim>\<open>from_aliases_to_reduced\<close>
  spreads from \<open>g\<close>.  The scatter is the transpose of the gather.
\<close>

theorem from_aliases_to_reduced_transpose:
  assumes "aliasing_valid aliases"
    and "aliasToRed = snd (create_mappings aliases)"
    and "length r = length (fst (create_mappings aliases))"
    and "length g = length aliases"
    and "length ns = length aliases"
    and "length rg = length r"
  shows "(\<Sum>i<length aliases. g ! i * from_reduced_to_aliases aliases aliasToRed r ns ! i)
       = (\<Sum>j<length r. from_aliases_to_reduced aliases aliasToRed g rg False ! j * r ! j)"
proof -
  let ?z = "replicate (length rg) (0::real)"
  have rng: "\<forall>i<length g. entry_in_range aliases aliasToRed (length ?z) i"
    using assms valid_entries_in_range by simp
  from scatter_fold_dot[OF rng, of g r]
  have len: "length (from_aliases_to_reduced aliases aliasToRed g rg False) = length r"
    and d: "dot (from_aliases_to_reduced aliases aliasToRed g rg False) r
            = (\<Sum>i<length g. g ! i * full_value aliases aliasToRed r i)"
    using assms by (simp_all add: from_aliases_to_reduced_def dot_replicate_zero)
  have "(\<Sum>i<length aliases. g ! i * from_reduced_to_aliases aliases aliasToRed r ns ! i)
      = (\<Sum>i<length g. g ! i * full_value aliases aliasToRed r i)"
    using assms by (simp add: from_reduced_to_aliases_nth)
  with d len show ?thesis by (simp add: dot_def)
qed


lemma ex_mappings: "create_mappings ex_aliases = ([0, 1, 3], [0, 1, index_t_max, 2])"
  by (simp add: ex_aliases_def create_mappings_def mapping_step_def alias_empty_def)

lemma ex_valid: "aliasing_valid ex_aliases"
  by (simp add: aliasing_valid_def ex_aliases_def alias_empty_def)

theorem from_aliases_to_reduced_transpose_witness:
  "aliasing_valid ex_aliases \<and>
   [0, 1, index_t_max, 2] = snd (create_mappings ex_aliases) \<and>
   from_reduced_to_aliases ex_aliases [0, 1, index_t_max, 2] [3, 4, 5] [0, 0, 0, 0] = [3, 4, 2, 5] \<and>
   from_aliases_to_reduced ex_aliases [0, 1, index_t_max, 2] [1, 2, 3, 4] [9, 9, 9] False = [4, 5, 1] \<and>
   (\<Sum>i<length ex_aliases. [1, 2, 3, 4] ! i *
       from_reduced_to_aliases ex_aliases [0, 1, index_t_max, 2] [3, 4, 5] [0, 0, 0, 0] ! i)
   = (\<Sum>j<length [3, 4, 5 :: real].
        from_aliases_to_reduced ex_aliases [0, 1, index_t_max, 2] [1, 2, 3, 4] [9, 9, 9] False ! j
        * [3, 4, 5] ! j)"
proof -
  have l: "length ex_aliases = 4" by (simp add: ex_aliases_def)
  have m: "[0, 1, index_t_max, 2] = snd (create_mappings ex_aliases)" by (simp add: ex_mappings)
  have x: "from_reduced_to_aliases ex_aliases [0, 1, index_t_max, 2] [3, 4, 5] [0, 0, 0, 0] = [3, 4, 2, 5]"
    by (simp add: from_reduced_to_aliases_def gather_value_def ex_aliases_def alias_empty_def upt_rec)
  have rg: "from_aliases_to_reduced ex_aliases [0, 1, index_t_max, 2] [1, 2, 3, 4] [9, 9, 9] False = [4, 5, 1]"
    by (simp add: from_aliases_to_reduced_def spread_entry_def ex_aliases_def alias_empty_def upt_rec numeral_3_eq_3)
  from from_aliases_to_reduced_transpose[OF ex_valid m, of "[3, 4, 5]" "[1, 2, 3, 4]" "[0, 0, 0, 0]" "[9, 9, 9]"]
  have "(\<Sum>i<length ex_aliases. [1, 2, 3, 4] ! i *
       from_reduced_to_aliases ex_aliases [0, 1, index_t_max, 2] [3, 4, 5] [0, 0, 0, 0] ! i)
   = (\<Sum>j<length [3, 4, 5 :: real].
        from_aliases_to_reduced ex_aliases [0, 1, index_t_max, 2] [1, 2, 3, 4] [9, 9, 9] False ! j
        * [3, 4, 5] ! j)"
    by (simp add: ex_mappings l)
  with ex_valid m x rg show ?thesis by blast
qed

subsection \<open>The global objective and its gradient\<close>

lemma fold_update_add_count:
  "\<forall>idx \<in> set xs. idx < length g \<Longrightarrow>
   length (fold (\<lambda>idx g. g[idx := g ! idx + s]) xs g) = length g \<and>
   (\<forall>i<length g. fold (\<lambda>idx g. g[idx := g ! idx + s]) xs g ! i = g ! i + s * real (count_list xs i))"
proof (induction xs arbitrary: g)
  case Nil
  then show ?case by simp
next
  case (Cons a xs)
  let ?g = "g[a := g ! a + s]"
  from Cons.prems have "\<forall>idx \<in> set xs. idx < length ?g" by simp
  from Cons.IH[OF this] Cons.prems show ?case
    by (auto simp: nth_list_update algebra_simps)
qed

lemma fold_update_sub_count:
  "\<forall>idx \<in> set xs. idx < length g \<Longrightarrow>
   length (fold (\<lambda>idx g. g[idx := g ! idx - s]) xs g) = length g \<and>
   (\<forall>i<length g. fold (\<lambda>idx g. g[idx := g ! idx - s]) xs g ! i = g ! i - s * real (count_list xs i))"
  using fold_update_add_count[of xs g "- s"] by simp

lemma course_errors_grad:
  assumes "length grad = length cdata"
  shows "length (snd (course_errors cdata w_c ns grad)) = length cdata"
    and "fst (course_errors cdata w_c ns grad) = (\<Sum>i<length cdata. loss (ns ! i - cdata ! i))"
    and "\<forall>i<length cdata. snd (course_errors cdata w_c ns grad) ! i = w_c * 2 * (ns ! i - cdata ! i)"
proof -
  let ?f = "\<lambda>i acc. (fst acc + loss (ns ! i - cdata ! i), (snd acc)[i := w_c * 2 * (ns ! i - cdata ! i)])"
  have inv: "n \<le> length cdata \<Longrightarrow>
      length (snd (fold ?f [0..<n] (0, grad))) = length cdata \<and>
      fst (fold ?f [0..<n] (0, grad)) = (\<Sum>i<n. loss (ns ! i - cdata ! i)) \<and>
      (\<forall>i<n. snd (fold ?f [0..<n] (0, grad)) ! i = w_c * 2 * (ns ! i - cdata ! i))" for n
    using assms by (induction n) (auto simp: nth_list_update less_Suc_eq)
  have e: "course_errors cdata w_c ns grad = fold ?f [0..<length cdata] (0, grad)"
  proof (cases "length grad > 0")
    case True
    then show ?thesis by (simp add: course_errors_def)
  next
    case False
    with assms show ?thesis by (simp add: course_errors_def)
  qed
  from inv[of "length cdata"] e
  show "length (snd (course_errors cdata w_c ns grad)) = length cdata"
    and "fst (course_errors cdata w_c ns grad) = (\<Sum>i<length cdata. loss (ns ! i - cdata ! i))"
    and "\<forall>i<length cdata. snd (course_errors cdata w_c ns grad) ! i = w_c * 2 * (ns ! i - cdata ! i)"
    by simp_all
qed

lemma fold_add_nth: "fold (\<lambda>idx s. s + ns ! idx) xs (v::real) = v + sum_list (map (\<lambda>idx. ns ! idx) xs)"
  by (induction xs arbitrary: v) simp_all

lemma node_error_step:
  assumes "\<forall>idx \<in> set (inp_edges node @ out_edges node). idx < length g"
  shows "length (snd (node_error w_s ns node (Es, g))) = length g"
    and "fst (node_error w_s ns node (Es, g)) = Es + (if node_active node then (node_diff ns node)\<^sup>2 else 0)"
    and "\<forall>i<length g. snd (node_error w_s ns node (Es, g)) ! i
            = g ! i + (if node_active node then node_term w_s ns node i else 0)"
proof -
  let ?s = "w_s * 2 * node_diff ns node"
  let ?gi = "fold (\<lambda>idx g. g[idx := g ! idx + ?s]) (inp_edges node) g"
  let ?go = "fold (\<lambda>idx g. g[idx := g ! idx - ?s]) (out_edges node) ?gi"
  from assms have i: "\<forall>idx \<in> set (inp_edges node). idx < length g" by simp
  note a = fold_update_add_count[OF i, of ?s]
  from assms a have o: "\<forall>idx \<in> set (out_edges node). idx < length ?gi" by simp
  note b = fold_update_sub_count[OF o, of ?s]
  have ne: "node_active node \<Longrightarrow> g \<noteq> []"
    using assms by (cases "inp_edges node") (auto simp: node_active_def)
  have r: "node_active node \<Longrightarrow> node_error w_s ns node (Es, g) = (Es + (node_diff ns node)\<^sup>2, ?go)"
    using ne by (simp add: node_error_def node_active_def node_diff_def fold_add_nth loss_def Let_def power2_eq_square)
  have r': "\<not> node_active node \<Longrightarrow> node_error w_s ns node (Es, g) = (Es, g)"
    by (auto simp: node_error_def node_active_def)
  show "length (snd (node_error w_s ns node (Es, g))) = length g"
    using r r' a b by (cases "node_active node") simp_all
  show "fst (node_error w_s ns node (Es, g)) = Es + (if node_active node then (node_diff ns node)\<^sup>2 else 0)"
    using r r' by simp
  show "\<forall>i<length g. snd (node_error w_s ns node (Es, g)) ! i
            = g ! i + (if node_active node then node_term w_s ns node i else 0)"
    using r r' a b by (cases "node_active node") (simp_all add: node_term_def algebra_simps)
qed

lemma node_loop:
  assumes "edges_below (length g) nodes"
  shows "length (snd (fold (node_error w_s ns) nodes (Es, g))) = length g \<and>
         fst (fold (node_error w_s ns) nodes (Es, g))
           = Es + (\<Sum>node\<leftarrow>filter node_active nodes. (node_diff ns node)\<^sup>2) \<and>
         (\<forall>i<length g. snd (fold (node_error w_s ns) nodes (Es, g)) ! i
           = g ! i + (\<Sum>node\<leftarrow>filter node_active nodes. node_term w_s ns node i))"
  using assms
proof (induction nodes arbitrary: Es g)
  case Nil
  then show ?case by simp
next
  case (Cons node nodes)
  obtain Es' g' where s: "node_error w_s ns node (Es, g) = (Es', g')" by (cases "node_error w_s ns node (Es, g)")
  from Cons.prems have n: "\<forall>idx \<in> set (inp_edges node @ out_edges node). idx < length g"
    by (simp add: edges_below_def)
  note st = node_error_step[OF n, of w_s ns Es, unfolded s, simplified]
  from Cons.prems st have "edges_below (length g') nodes" by (simp add: edges_below_def)
  from Cons.IH[OF this, of Es'] st s show ?case by (simp add: algebra_simps)
qed

text \<open>
  Claim C2.  For \<open>x\<close> and \<^verbatim>\<open>cdata\<close> of the same length \<open>E\<close>, all edge indices of the nodes
  below \<open>E\<close> and a zeroed gradient vector of length \<open>E\<close>, \<^verbatim>\<open>global_sampling\<close> returns
  \<open>Ec * w_c + Es * w_s\<close>, where \<open>Ec\<close> is the sum of the squares \<open>(x\<^sub>i - c\<^sub>i)\<^sup>2\<close> and \<open>Es\<close> the sum
  of the squares of (inputs minus outputs) over the simple nodes with an input and an
  output; and it leaves in \<open>grad[i]\<close> the value \<open>w_c * 2 * (x\<^sub>i - c\<^sub>i)\<close> plus, for every such
  node, \<open>w_s * 2 * diff\<close> for each occurrence of \<open>i\<close> among its inputs and minus that for
  each occurrence among its outputs.
\<close>

theorem global_sampling_value_and_gradient:
  assumes "length ns = length cdata"
    and "grad = replicate (length cdata) 0"
    and "edges_below (length cdata) nodes"
  shows "fst (global_sampling cdata nodes w_c w_s ns grad)
           = (\<Sum>i<length cdata. (ns ! i - cdata ! i)\<^sup>2) * w_c
             + (\<Sum>node\<leftarrow>filter node_active nodes. (node_diff ns node)\<^sup>2) * w_s \<and>
         length (snd (global_sampling cdata nodes w_c w_s ns grad)) = length cdata \<and>
         (\<forall>i<length cdata. snd (global_sampling cdata nodes w_c w_s ns grad) ! i
           = w_c * 2 * (ns ! i - cdata ! i)
             + (\<Sum>node\<leftarrow>filter node_active nodes.
                  w_s * 2 * node_diff ns node * real (count_list (inp_edges node) i)
                  - w_s * 2 * node_diff ns node * real (count_list (out_edges node) i)))"
proof -
  from assms have lg: "length grad = length cdata" by simp
  obtain Ec g where c: "course_errors cdata w_c ns grad = (Ec, g)" by (cases "course_errors cdata w_c ns grad")
  note ce = course_errors_grad[OF lg, of w_c ns, unfolded c, simplified]
  from ce assms have "edges_below (length g) nodes" by simp
  note nl = node_loop[OF this, of w_s ns 0]
  have t: "node_term w_s ns node i = w_s * 2 * node_diff ns node * real (count_list (inp_edges node) i)
                  - w_s * 2 * node_diff ns node * real (count_list (out_edges node) i)" for node i
    by (simp add: node_term_def algebra_simps)
  from nl ce c show ?thesis
    by (simp add: global_sampling_def Let_def loss_def power2_eq_square t)
qed


theorem global_sampling_value_and_gradient_witness:
  "length [6, 4, 7 :: real] = length [5, 5, 5 :: real] \<and>
   edges_below (length [5, 5, 5 :: real]) ex_nodes \<and>
   global_sampling [5, 5, 5] ex_nodes 1 (1 / 10) [6, 4, 7] (replicate 3 0)
     = (32 / 5, [12 / 5, - 12 / 5, 4]) \<and>
   fst (global_sampling [5, 5, 5] ex_nodes 1 (1 / 10) [6, 4, 7] (replicate (length [5, 5, 5 :: real]) 0))
     = (\<Sum>i<length [5, 5, 5 :: real]. ([6, 4, 7] ! i - [5, 5, 5] ! i)\<^sup>2) * 1
       + (\<Sum>node\<leftarrow>filter node_active ex_nodes. (node_diff [6, 4, 7] node)\<^sup>2) * (1 / 10)"
proof -
  have e: "edges_below (length [5, 5, 5 :: real]) ex_nodes"
    by (simp add: edges_below_def ex_nodes_def)
  have v: "global_sampling [5, 5, 5] ex_nodes 1 (1 / 10) [6, 4, 7] (replicate 3 0)
     = (32 / 5, [12 / 5, - 12 / 5, 4])"
    by (simp add: global_sampling_def course_errors_def node_error_def ex_nodes_def loss_def
        upt_rec numeral_3_eq_3 Let_def)
  from global_sampling_value_and_gradient[of "[6, 4, 7]" "[5, 5, 5]"
      "replicate (length [5, 5, 5 :: real]) 0" ex_nodes 1 "1 / 10", OF _ refl e]
  have "fst (global_sampling [5, 5, 5] ex_nodes 1 (1 / 10) [6, 4, 7] (replicate (length [5, 5, 5 :: real]) 0))
     = (\<Sum>i<length [5, 5, 5 :: real]. ([6, 4, 7] ! i - [5, 5, 5] ! i)\<^sup>2) * 1
       + (\<Sum>node\<leftarrow>filter node_active ex_nodes. (node_diff [6, 4, 7] node)\<^sup>2) * (1 / 10)"
    by simp
  with e v show ?thesis by simp
qed

subsection \<open>The finite-difference gradient checker\<close>

lemma gradient_error_step_relative:
  assumes "i < length ns"
  shows "gradient_error_step f ns (grad_ana f ns) epsilon True i (m, ns)
           = (max m (rel_err f ns epsilon i), ns)"
  using assms
  by (simp add: gradient_error_step_def rel_err_def grad_num_def Let_def)

lemma gradient_error_loop:
  assumes "k \<le> length ns"
  shows "fold (gradient_error_step f ns (grad_ana f ns) epsilon True) [0..<k] (0, ns)
           = (Max (insert 0 (rel_err f ns epsilon ` {..<k})), ns)"
  using assms
proof (induction k)
  case 0
  then show ?case by simp
next
  case (Suc k)
  then have "fold (gradient_error_step f ns (grad_ana f ns) epsilon True) [0..<Suc k] (0, ns)
      = (max (Max (insert 0 (rel_err f ns epsilon ` {..<k}))) (rel_err f ns epsilon k), ns)"
    by (simp add: gradient_error_step_relative)
  also have "max (Max (insert 0 (rel_err f ns epsilon ` {..<k}))) (rel_err f ns epsilon k)
      = Max (insert 0 (rel_err f ns epsilon ` {..<Suc k}))"
  proof -
    have "insert 0 (rel_err f ns epsilon ` {..<Suc k})
        = insert (rel_err f ns epsilon k) (insert 0 (rel_err f ns epsilon ` {..<k}))"
      by (auto simp: lessThan_Suc)
    then show ?thesis by (simp add: max.commute)
  qed
  finally show ?case .
qed

lemma rel_err_nonneg: "0 \<le> rel_err f ns epsilon i"
  by (simp add: rel_err_def)

lemma rel_err_as_ratio:
  assumes "grad_ana f ns ! i > 1 / 10 ^ 8"
  shows "rel_err f ns epsilon i
           = \<bar>grad_ana f ns ! i - grad_num f ns epsilon i\<bar> / max \<bar>grad_ana f ns ! i\<bar> (1 / 10 ^ 8)"
proof -
  from assms have "0 < grad_ana f ns ! i" by (rule less_trans[rotated]) simp
  with assms have "max \<bar>grad_ana f ns ! i\<bar> (1 / 10 ^ 8) = grad_ana f ns ! i" by simp
  with assms show ?thesis by (simp add: rel_err_def)
qed

text \<open>
  Claim C5, as the code has it.  For a point of the length of \<^verbatim>\<open>cdata\<close>, at least one
  variable and a positive step, the checker in relative mode returns the maximum over
  \<open>i\<close> of a term that is the absolute difference between the analytic entry and the
  central difference, divided by the analytic entry when that entry exceeds \<open>1e-8\<close>, and
  left undivided otherwise.
\<close>

theorem get_gradient_error_relative:
  assumes "length cdata = length ns" and "0 < length ns" and "0 < epsilon"
  shows "get_gradient_error cdata ns f epsilon True = Max (rel_err f ns epsilon ` {..<length ns})"
proof -
  have "get_gradient_error cdata ns f epsilon True
          = Max (insert 0 (rel_err f ns epsilon ` {..<length ns}))"
    using assms gradient_error_loop[of "length ns" ns f epsilon]
    by (simp add: get_gradient_error_def grad_ana_def Let_def)
  also have "\<dots> = max 0 (Max (rel_err f ns epsilon ` {..<length ns}))"
    using assms by (subst Max_insert) auto
  also have "\<dots> = Max (rel_err f ns epsilon ` {..<length ns})"
  proof -
    have "rel_err f ns epsilon 0 \<le> Max (rel_err f ns epsilon ` {..<length ns})"
      using assms by (intro Max_ge) auto
    with rel_err_nonneg[of f ns epsilon 0] show ?thesis by simp
  qed
  finally show ?thesis .
qed

theorem get_gradient_error_relative_witness:
  "length [0 :: real] = length [1 :: real] \<and> 0 < length [1 :: real] \<and> (0 :: real) < 1 \<and>
   get_gradient_error [0] [1] ex_cubic 1 True = Max (rel_err ex_cubic [1] 1 ` {..<length [1 :: real]}) \<and>
   rel_err ex_cubic [1] 1 0 = 1"
proof -
  have "rel_err ex_cubic [1] 1 0 = 1"
    by (simp add: rel_err_def grad_ana_def grad_num_def ex_cubic_def)
  with get_gradient_error_relative[of "[0]" "[1]" 1 ex_cubic] show ?thesis by simp
qed

text \<open>
  Claim C5 as stated fails for minus the cube at the point 1 with step 1: the analytic
  derivative is -3, the central difference -4, the checker returns 1, and the stated
  quotient by \<open>max(|grad_ana|, 1e-8)\<close> is 1/3.
\<close>

theorem get_gradient_error_counterexample:
  "get_gradient_error [0] [1] ex_cubic 1 True = 1 \<and>
   grad_ana ex_cubic [1] = [- 3] \<and> grad_num ex_cubic [1] 1 0 = - 4 \<and>
   \<bar>grad_ana ex_cubic [1] ! 0 - grad_num ex_cubic [1] 1 0\<bar>
      / max \<bar>grad_ana ex_cubic [1] ! 0\<bar> (1 / 10 ^ 8) = 1 / 3"
  by (simp add: get_gradient_error_def gradient_error_step_def grad_ana_def grad_num_def
      ex_cubic_def Let_def)

subsection \<open>Gradients written by the constraint functions\<close>

text \<open>
  Claim C3.  Every constraint function is to overwrite the gradient entries at its
  affected indices whatever the vector held before.  Evaluated on vectors that start
  with the entries 5, 7 (and 9): the interface constraint leaves 1 and -1 as stated;
  the upper range constraint with \<open>w = 2\<close> leaves 6 and 5 where 1 and -2 are stated, the
  lower range constraint with \<open>iw = 1/2\<close> leaves 4 and 15/2 where -1 and 1/2 are stated,
  and the alias constraint leaves 4, 6, 10 where -1, -1, 1 are stated: these three add
  to the prior contents.
\<close>

theorem constraint_gradients_accumulate:
  "global_interface_constraint [3, 4] [5, 7]
      \<lparr>Node.index = 0, simple = False, inp_edges = [0], out_edges = [1]\<rparr> = (- 1, [1, - 1]) \<and>
   global_urange_constraint [2] [3, 4] [5, 7]
      \<lparr>Node.index = 0, simple = True, inp_edges = [0], out_edges = [1]\<rparr> = (- 5, [6, 5]) \<and>
   global_lrange_constraint [1 / 2] [3, 4] [5, 7]
      \<lparr>Node.index = 0, simple = True, inp_edges = [0], out_edges = [1]\<rparr> = (- 1, [4, 15 / 2]) \<and>
   global_alias_constraint [0, 1, index_t_max, 2] [3, 4, 5] [5, 7, 9]
      \<lparr>VarAlias.index = 2, pos = [0, 1], neg = [3], min_bound = 2\<rparr> = (0, [4, 6, 10])"
  by (simp add: global_interface_constraint_def global_urange_constraint_def
      global_lrange_constraint_def global_alias_constraint_def inp_def out_def numeral_3_eq_3)

subsection \<open>The short-row objective with L1 simplicity\<close>

text \<open>
  Claim C4.  With \<^verbatim>\<open>simp_L2 = false\<close> every adjacent pair is to add \<open>|x\<^sub>i - x\<^sub>i\<^sub>-\<^sub>1|\<close> to \<open>Es\<close> and
  the gradient is to accumulate, \<open>grad[i]\<close> ending as \<open>w_w * 2 * (x\<^sub>i - c\<^sub>i)\<close> plus the signed
  \<open>w_s\<close> of every pair at \<open>i\<close>.  Evaluated at \<open>x = [3, 1]\<close>, \<open>c = [0, 0]\<close>, \<open>w_w = 1\<close>,
  \<open>w_s = 1/10\<close>, not circular, on a zeroed gradient: the value is 10 + 2/10 as stated, but
  the gradient is left as \<open>[1/10, -1/10]\<close> where \<open>[6 + 1/10, 2 - 1/10]\<close> is stated: the
  L1 branch of \<^verbatim>\<open>simplicity\<close> assigns its two entries and the accuracy part is lost.
\<close>

theorem rs_sampling_L1_overwrites:
  "rs_sampling [0, 0] False False 1 (1 / 10) [3, 1] [0, 0] = (51 / 5, [1 / 10, - 1 / 10])"
  by (simp add: rs_sampling_def rs_step_def simplicity_def loss_def upt_rec Let_def)

subsection \<open>Aliases of nodes with several inputs and several outputs\<close>

lemma replicate_4: "replicate 4 x = [x, x, x, x]"
  by (simp add: numeral_Bit0 replicate_add)

lemma ex_complex_state_by_calls:
  "Option.bind (allocate_node 0 False 2 2 (allocate 4 1 (global_init 37 11))) (\<lambda>s1.
   Option.bind (set_node_input 0 0 0 s1) (\<lambda>s2.
   Option.bind (set_node_input 0 1 1 s2) (\<lambda>s3.
   Option.bind (set_node_output 0 0 2 s3) (\<lambda>s4.
   Option.bind (set_node_output 0 1 3 s4) (\<lambda>s5.
   Option.bind (set_cdata 0 3 (set_aliasing_level COMPLEX s5)) (\<lambda>s6.
   Option.bind (set_cdata 1 4 s6) (\<lambda>s7.
   Option.bind (set_cdata 2 2 s7) (\<lambda>s8.
   set_cdata 3 5 s8))))))))
   = Some ex_complex_state"
  by (simp add: ex_complex_state_def allocate_node_def allocate_def global_reset_def
      set_node_input_def set_node_output_def set_cdata_def set_aliasing_level_def
      global_init_def resize_idx_def replicate_4 numeral_2_eq_2 numeral_3_eq_3)

text \<open>
  Claim C7.  At level \<^verbatim>\<open>COMPLEX\<close> a node with an active interface constraint, more than
  one input and more than one output is to produce the alias of its first output with
  \<open>pos\<close> its inputs and \<open>neg\<close> its other outputs, and that alias is to have
  \<^verbatim>\<open>has_constraint\<close>.  For the node with inputs 0, 1 and outputs 2, 3 the alias of
  variable 2 is produced as stated, with \<open>pos = [0, 1]\<close> and \<open>neg = [3]\<close>, but
  \<^verbatim>\<open>has_constraint\<close> is false for it: the test is \<open>neg.size() > 1\<close>.
\<close>

theorem complex_alias_without_constraint:
  "g_aliases (compute_aliases ex_complex_state) ! 2
     = \<lparr>VarAlias.index = 2, pos = [0, 1], neg = [3], min_bound = 0\<rparr> \<and>
   \<not> has_constraint (g_aliases (compute_aliases ex_complex_state) ! 2)"
  by (simp add: compute_aliases_def ex_complex_state_def set_aliasing_level_def allocate_def
      global_reset_def global_init_def alias_node_step_def has_interface_constraint_def
      has_constraint_def noAlias_def upt_rec Let_def numeral_2_eq_2 numeral_3_eq_3)

subsection \<open>The shaping factor of the local solver\<close>

lemma local_solve_keeps_shaping:
  "local_solve AUGLAG nrand st = Some r \<Longrightarrow> l_F (fst r) = l_F st \<and> l_iF (fst r) = l_iF st"
  by (auto simp: local_solve_def Let_def split: option.splits)

lemma set_shaping_clamps:
  "l_F (set_shaping v st) = max 1.01 (min 2.0 v) \<and> l_iF (set_shaping v st) = 1 / l_F (set_shaping v st)"
  by (simp add: set_shaping_def Let_def)

lemma local_step_shaping:
  assumes "local_step AUGLAG c st = Some st'"
  shows "case c of
           Set_shaping v \<Rightarrow> l_F st' = max 1.01 (min 2.0 v) \<and> l_iF st' = 1 / l_F st'
         | _ \<Rightarrow> l_F st' = l_F st \<and> l_iF st' = l_iF st"
proof (cases c)
  case (Solve nrand x_final objval_final iter_final)
  with assms obtain r where "local_solve AUGLAG nrand st = Some r"
    and "st' = (fst r)\<lparr>l_nvars := x_final, l_objval := objval_final, l_curr_iter := iter_final\<rparr>"
    by (auto split: option.splits)
  with local_solve_keeps_shaping[of AUGLAG nrand st r] Solve show ?thesis by simp
next
  case (Set_shaping v)
  with assms set_shaping_clamps[of v st] show ?thesis by auto
qed (use assms in \<open>auto simp: local_reset_def split: if_splits\<close>)

lemma local_step_inv:
  assumes "local_step AUGLAG c st = Some st'"
    and "1.01 \<le> l_F st \<and> l_F st \<le> 2.0 \<and> l_iF st = 1 / l_F st"
  shows "1.01 \<le> l_F st' \<and> l_F st' \<le> 2.0 \<and> l_iF st' = 1 / l_F st'"
  using local_step_shaping[OF assms(1)] assms(2) by (cases c) auto

lemma local_reachable_inv:
  "local_reachable AUGLAG LD_LBFGS st \<Longrightarrow> 1.01 \<le> l_F st \<and> l_F st \<le> 2.0 \<and> l_iF st = 1 / l_F st"
proof (induction rule: local_reachable.induct)
  case start
  show ?case by (simp add: local_init_def)
next
  case (call st c st')
  from local_step_inv[OF call.hyps(2) call.IH] show ?case .
qed

text \<open>
  Claim C10.  In every state the local solver can reach from its initial state by calls
  of its exported functions, \<open>F\<close> lies between 1.01 and 2 and \<open>iF = 1 / F\<close>.  From such a
  state every call other than \<^verbatim>\<open>set_shaping\<close> leaves \<open>F\<close> and \<open>iF\<close> as they are, and
  \<^verbatim>\<open>set_shaping(v)\<close> stores \<open>v\<close> clamped into the interval and its reciprocal, without
  rejecting any \<open>v\<close>.  The initial state has \<open>F = 2\<close> and \<open>iF = 0.5\<close>.
\<close>

theorem shaping_factor_invariant:
  assumes "local_reachable AUGLAG LD_LBFGS st"
  shows "1.01 \<le> l_F st \<and> l_F st \<le> 2.0 \<and> l_iF st = 1 / l_F st \<and>
         (\<forall>c st'. local_step AUGLAG c st = Some st' \<longrightarrow>
            (case c of
               Set_shaping v \<Rightarrow> l_F st' = max 1.01 (min 2.0 v) \<and> l_iF st' = 1 / l_F st'
             | _ \<Rightarrow> l_F st' = l_F st \<and> l_iF st' = l_iF st)) \<and>
         l_F (local_init AUGLAG LD_LBFGS) = 2 \<and> l_iF (local_init AUGLAG LD_LBFGS) = 0.5"
  using local_reachable_inv[OF assms] local_step_shaping
  by (simp add: local_init_def)

theorem shaping_factor_invariant_witness:
  "local_reachable 36 11 (set_shaping 5 (local_init 36 11)) \<and>
   l_F (set_shaping 5 (local_init 36 11)) = 2 \<and>
   l_iF (set_shaping 5 (local_init 36 11)) = 1 / 2 \<and>
   local_step 36 (Set_shaping (1 / 2)) (set_shaping 5 (local_init 36 11))
     = Some (set_shaping (1 / 2) (set_shaping 5 (local_init 36 11))) \<and>
   l_F (set_shaping (1 / 2) (set_shaping 5 (local_init 36 11))) = 101 / 100 \<and>
   l_iF (set_shaping (1 / 2) (set_shaping 5 (local_init 36 11))) = 100 / 101"
proof -
  have r: "local_reachable 36 11 (set_shaping 5 (local_init 36 11))"
    by (rule local_reachable.call[OF local_reachable.start, of 36 "Set_shaping 5"]) simp
  have s: "local_step 36 (Set_shaping (1 / 2)) (set_shaping 5 (local_init 36 11))
     = Some (set_shaping (1 / 2) (set_shaping 5 (local_init 36 11)))" by simp
  from shaping_factor_invariant[OF r]
  have "l_iF (set_shaping 5 (local_init 36 11)) = 1 / l_F (set_shaping 5 (local_init 36 11))"
    and "\<forall>c st'. local_step 36 c (set_shaping 5 (local_init 36 11)) = Some st' \<longrightarrow>
            (case c of
               Set_shaping v \<Rightarrow> l_F st' = max 1.01 (min 2.0 v) \<and> l_iF st' = 1 / l_F st'
             | _ \<Rightarrow> l_F st' = l_F (set_shaping 5 (local_init 36 11)) \<and>
                    l_iF st' = l_iF (set_shaping 5 (local_init 36 11)))"
    by blast+
  from this(2) s have "l_F (set_shaping (1 / 2) (set_shaping 5 (local_init 36 11))) = max 1.01 (min 2.0 (1 / 2))
     \<and> l_iF (set_shaping (1 / 2) (set_shaping 5 (local_init 36 11)))
        = 1 / l_F (set_shaping (1 / 2) (set_shaping 5 (local_init 36 11)))"
    by fastforce
  with r s \<open>l_iF (set_shaping 5 (local_init 36 11)) = 1 / l_F (set_shaping 5 (local_init 36 11))\<close>
  show ?thesis by (simp add: set_shaping_def Let_def)
qed

subsection \<open>The default evaluation cap\<close>

lemma configure_opt_maxeval:
  "opt_maxeval (configure_opt AUGLAG main_algo local_algo n lftol f mftol max_eval dflt max_time)
     = (if max_eval \<noteq> 0 then int max_eval else dflt)"
  by (simp add: configure_opt_def Let_def)

lemma global_constraints_maxeval:
  "opt_maxeval (snd (global_constraints gs lb opt)) = opt_maxeval opt"
  by (simp add: global_constraints_def Let_def)

lemma compute_aliases_max_eval: "g_max_eval (compute_aliases gs) = g_max_eval gs"
  by (simp add: compute_aliases_def Let_def)

lemma global_solve_maxeval:
  "opt_maxeval (fst (snd (global_solve AUGLAG nrand verbose gs)))
     = (if g_max_eval gs \<noteq> 0 then int (g_max_eval gs) else 1000)"
  by (simp add: global_solve_def Let_def global_constraints_maxeval configure_opt_maxeval
      compute_aliases_max_eval)

lemma sr_solve_maxeval:
  "opt_maxeval (fst (snd (sr_solve AUGLAG nrand st)))
     = (if s_max_eval st \<noteq> 0 then int (s_max_eval st) else 100)"
  by (simp add: sr_solve_def Let_def configure_opt_maxeval)

lemma local_solve_maxeval:
  "local_solve AUGLAG nrand st = Some r \<Longrightarrow>
     opt_maxeval (fst (snd r)) = (if l_max_eval st \<noteq> 0 then int (l_max_eval st) else 1000)"
  by (auto simp: local_solve_def Let_def configure_opt_maxeval split: option.splits)

lemma local_solve_returns:
  "l_cdata st \<noteq> [] \<or> \<not> l_use_constraints st \<Longrightarrow> \<exists>r. local_solve AUGLAG nrand st = Some r"
  by (auto simp: local_solve_def Let_def get_constraints_def)

text \<open>
  Claim C8, as the code has it.  With \<^verbatim>\<open>max_eval = 0\<close> the global and the local \<^verbatim>\<open>solve\<close> hand
  the optimiser an evaluation cap of 1000, and the short-row \<^verbatim>\<open>solve\<close> a cap of 100.  The
  local \<^verbatim>\<open>solve\<close> gets as far as the optimiser whenever \<^verbatim>\<open>cdata\<close> is not empty or constraints
  are switched off.
\<close>

theorem default_evaluation_cap:
  "(g_max_eval gs = 0 \<longrightarrow>
      opt_maxeval (fst (snd (global_solve AUGLAG nrand verbose gs))) = 1000) \<and>
   (l_max_eval ls = 0 \<and> (l_cdata ls \<noteq> [] \<or> \<not> l_use_constraints ls) \<longrightarrow>
      (\<exists>r. local_solve AUGLAG nrand ls = Some r \<and> opt_maxeval (fst (snd r)) = 1000)) \<and>
   (s_max_eval ss = 0 \<longrightarrow>
      opt_maxeval (fst (snd (sr_solve AUGLAG nrand ss))) = 100)"
  using local_solve_returns[of ls AUGLAG nrand] local_solve_maxeval[of AUGLAG nrand ls]
  by (auto simp: global_solve_maxeval sr_solve_maxeval)

text \<open>
  Claim C8 as stated fails for the short-row solver: with \<^verbatim>\<open>max_eval = 0\<close> its cap is 100,
  not 1000.
\<close>

theorem default_evaluation_cap_counterexample:
  "s_max_eval ex_sr_state = 0 \<and>
   opt_maxeval (fst (snd (sr_solve 36 no_noise ex_sr_state))) = 100 \<and>
   opt_maxeval (fst (snd (sr_solve 36 no_noise ex_sr_state))) \<noteq> 1000"
  by (simp add: ex_sr_state_def sr_set_max_eval_def sr_allocate_def sr_init_def sr_solve_def
      configure_opt_def new_opt_def Let_def)

theorem default_evaluation_cap_witness:
  "g_max_eval ((ex_single_edge 7)\<lparr>g_max_eval := 0\<rparr>) = 0 \<and>
   opt_maxeval (fst (snd (global_solve 36 no_noise False ((ex_single_edge 7)\<lparr>g_max_eval := 0\<rparr>)))) = 1000 \<and>
   l_max_eval ex_local_state = 0 \<and> l_cdata ex_local_state \<noteq> [] \<and>
   (\<exists>r. local_solve 36 no_noise ex_local_state = Some r \<and> opt_maxeval (fst (snd r)) = 1000) \<and>
   s_max_eval ex_sr_state = 0 \<and>
   opt_maxeval (fst (snd (sr_solve 36 no_noise ex_sr_state))) = 100"
proof -
  have g: "g_max_eval ((ex_single_edge 7)\<lparr>g_max_eval := 0\<rparr>) = 0" by simp
  have l: "l_max_eval ex_local_state = 0 \<and> l_cdata ex_local_state \<noteq> []"
    by (simp add: ex_local_state_def)
  have s: "s_max_eval ex_sr_state = 0" by (simp add: ex_sr_state_def sr_set_max_eval_def)
  from default_evaluation_cap[of "(ex_single_edge 7)\<lparr>g_max_eval := 0\<rparr>" 36 no_noise False
      ex_local_state ex_sr_state] g l s
  show ?thesis by blast
qed

subsection \<open>The bounds of the global solver\<close>

lemma bounds_fold:
  "fold (\<lambda>val acc. (min (fst acc) (f val), max (snd acc) (g val))) xs (a, b)
     = (if xs = [] then (a, b)
        else (min a (Min (f ` set xs)), max b (Max (g ` set xs))))"
  for a b :: real
proof (induction xs arbitrary: a b)
  case Nil
  then show ?case by simp
next
  case (Cons x xs)
  show ?case
  proof (cases "xs = []")
    case True
    then show ?thesis by simp
  next
    case False
    then have "Min (f ` set (x # xs)) = min (f x) (Min (f ` set xs))"
      and "Max (g ` set (x # xs)) = max (g x) (Max (g ` set xs))"
      by simp_all
    with Cons.IH[of "min a (f x)" "max b (g x)"] False show ?thesis
      by (simp add: min.assoc max.assoc)
  qed
qed

lemma global_bounds_eq:
  assumes "cdata \<noteq> []"
  shows "global_bounds cdata = (global_lower cdata, global_upper cdata)"
  using assms
  by (simp add: global_bounds_def global_lower_def global_upper_def bounds_fold Let_def)

lemma compute_aliases_cdata: "g_cdata (compute_aliases gs) = g_cdata gs"
  by (simp add: compute_aliases_def Let_def)

lemma configure_opt_fields:
  "opt_n (configure_opt A ma la n lf f mf me d mt) = n"
  "opt_inequality_constraints (configure_opt A ma la n lf f mf me d mt) = []"
  "opt_equality_constraints (configure_opt A ma la n lf f mf me d mt) = []"
  by (simp_all add: configure_opt_def new_opt_def Let_def)

lemma global_constraints_fields:
  "opt_n (snd (global_constraints gs lb opt)) = opt_n opt"
  "opt_lower_bounds (snd (global_constraints gs lb opt)) = opt_lower_bounds opt"
  "opt_upper_bounds (snd (global_constraints gs lb opt)) = opt_upper_bounds opt"
  by (simp_all add: global_constraints_def Let_def)

lemma global_constraints_aliases:
  "g_aliases (fst (global_constraints gs lb opt))
     = (if g_use_constraints gs
        then map (\<lambda>a. if has_constraint a then a\<lparr>min_bound := lb\<rparr> else a) (g_aliases gs)
        else g_aliases gs)"
  by (simp add: global_constraints_def Let_def)

lemma global_constraints_alias_registered:
  assumes "(Global_alias_constraint k, tol)
             \<in> set (opt_inequality_constraints (snd (global_constraints gs lb opt)))"
    and "opt_inequality_constraints opt = []"
  shows "g_use_constraints gs \<and> k < length (g_aliases gs) \<and> has_constraint (g_aliases gs ! k)"
  using assms by (auto simp: global_constraints_def Let_def split: if_splits)

lemma global_solve_opt:
  "fst (snd (global_solve AUGLAG nrand verbose gs))
     = snd (global_constraints ((compute_aliases gs)\<lparr>g_curr_iter := 0\<rparr>)
              (fst (global_bounds (g_cdata gs)))
              ((configure_opt AUGLAG (g_main_algo (compute_aliases gs)) (g_local_algo (compute_aliases gs))
                  (if g_aliasing_level (compute_aliases gs) = NONE
                   then length (g_nvars (compute_aliases gs)) else length (g_rvars (compute_aliases gs)))
                  (g_local_ftol_rel (compute_aliases gs))
                  (if g_aliasing_level (compute_aliases gs) = NONE
                   then Global_sampling else Global_reduced_sampling)
                  (g_main_ftol_rel (compute_aliases gs)) (g_max_eval (compute_aliases gs)) 1000
                  (g_max_time (compute_aliases gs)))
               \<lparr>opt_lower_bounds := Some (replicate
                    (if g_aliasing_level (compute_aliases gs) = NONE
                     then length (g_nvars (compute_aliases gs)) else length (g_rvars (compute_aliases gs)))
                    (fst (global_bounds (g_cdata gs)))),
                 opt_upper_bounds := Some (replicate
                    (if g_aliasing_level (compute_aliases gs) = NONE
                     then length (g_nvars (compute_aliases gs)) else length (g_rvars (compute_aliases gs)))
                    (snd (global_bounds (g_cdata gs))))\<rparr>))"
  by (simp add: global_solve_def Let_def compute_aliases_cdata)

lemma compute_aliases_use_constraints:
  "g_use_constraints (compute_aliases gs) = g_use_constraints gs"
  by (simp add: compute_aliases_def Let_def)

lemma global_solve_aliases:
  "g_aliases (fst (global_solve AUGLAG nrand verbose gs))
     = (if g_use_constraints gs
        then map (\<lambda>a. if has_constraint a
                       then a\<lparr>min_bound := fst (global_bounds (g_cdata gs))\<rparr> else a)
                 (g_aliases (compute_aliases gs))
        else g_aliases (compute_aliases gs))"
  by (simp add: global_solve_def Let_def compute_aliases_cdata global_constraints_aliases
      compute_aliases_use_constraints)

text \<open>
  Claim C6, as the code has it.  For non-empty targets the global \<^verbatim>\<open>solve\<close> hands the
  optimiser the uniform lower bound \<open>max(2, min(1000, min\<^sub>i floor(c\<^sub>i * 0.5)))\<close> and the
  uniform upper bound \<open>max(2, max\<^sub>i ceil(c\<^sub>i * 2))\<close>, and every alias for which an alias
  inequality is registered has that lower bound as its \<^verbatim>\<open>min_bound\<close>.
\<close>

theorem global_solve_bounds:
  assumes "g_cdata gs \<noteq> []"
  shows "opt_lower_bounds (fst (snd (global_solve AUGLAG nrand verbose gs)))
           = Some (replicate (opt_n (fst (snd (global_solve AUGLAG nrand verbose gs))))
                     (global_lower (g_cdata gs))) \<and>
         opt_upper_bounds (fst (snd (global_solve AUGLAG nrand verbose gs)))
           = Some (replicate (opt_n (fst (snd (global_solve AUGLAG nrand verbose gs))))
                     (global_upper (g_cdata gs))) \<and>
         (\<forall>k tol. (Global_alias_constraint k, tol)
                     \<in> set (opt_inequality_constraints (fst (snd (global_solve AUGLAG nrand verbose gs))))
            \<longrightarrow> k < length (g_aliases (fst (global_solve AUGLAG nrand verbose gs))) \<and>
                has_constraint (g_aliases (fst (global_solve AUGLAG nrand verbose gs)) ! k) \<and>
                min_bound (g_aliases (fst (global_solve AUGLAG nrand verbose gs)) ! k)
                  = global_lower (g_cdata gs))"
proof -
  note b = global_bounds_eq[OF assms]
  have lo: "opt_lower_bounds (fst (snd (global_solve AUGLAG nrand verbose gs)))
           = Some (replicate (opt_n (fst (snd (global_solve AUGLAG nrand verbose gs))))
                     (global_lower (g_cdata gs)))"
    by (simp add: global_solve_opt global_constraints_fields configure_opt_fields b)
  have up: "opt_upper_bounds (fst (snd (global_solve AUGLAG nrand verbose gs)))
           = Some (replicate (opt_n (fst (snd (global_solve AUGLAG nrand verbose gs))))
                     (global_upper (g_cdata gs)))"
    by (simp add: global_solve_opt global_constraints_fields configure_opt_fields b)
  have al: "k < length (g_aliases (fst (global_solve AUGLAG nrand verbose gs))) \<and>
                has_constraint (g_aliases (fst (global_solve AUGLAG nrand verbose gs)) ! k) \<and>
                min_bound (g_aliases (fst (global_solve AUGLAG nrand verbose gs)) ! k)
                  = global_lower (g_cdata gs)"
    if "(Global_alias_constraint k, tol)
          \<in> set (opt_inequality_constraints (fst (snd (global_solve AUGLAG nrand verbose gs))))"
    for k tol
  proof -
    let ?gs1 = "(compute_aliases gs)\<lparr>g_curr_iter := 0\<rparr>"
    from that global_constraints_alias_registered[of k tol ?gs1 "fst (global_bounds (g_cdata gs))"]
    have "g_use_constraints ?gs1 \<and> k < length (g_aliases ?gs1) \<and> has_constraint (g_aliases ?gs1 ! k)"
      by (simp add: global_solve_opt configure_opt_fields)
    then show ?thesis
      by (simp add: global_solve_aliases compute_aliases_use_constraints b has_constraint_def)
  qed
  from lo up al show ?thesis by blast
qed

lemma replicate_5: "replicate 5 x = [x, x, x, x, x]"
  by (simp add: numeral_eq_Suc)

lemma ex_three_outputs_unfold:
  "ex_three_outputs =
     (global_init 37 11)
       \<lparr>g_nvars := [0, 0, 0, 0, 0], g_cdata := [3, 4, 2, 5, 6],
        g_aliases := [noAlias, noAlias, noAlias, noAlias, noAlias],
        g_reduced := [False], g_wdata := [0], g_iwdata := [0],
        g_nodes := [\<lparr>Node.index = 0, simple = False, inp_edges = [0, 1], out_edges = [2, 3, 4]\<rparr>],
        g_aliased := False, g_ngrad := [0, 0, 0, 0, 0], g_aliasing_level := COMPLEX\<rparr>"
  by (simp add: ex_three_outputs_def set_aliasing_level_def allocate_def global_reset_def
      global_init_def resize_def replicate_5)


lemma upt_5: "[0..<5] = [0, 1, 2, 3, 4]"
  by (simp add: upt_rec)

lemma compute_aliases_three_outputs:
  "compute_aliases ex_three_outputs
     = ex_three_outputs
         \<lparr>g_aliases := ex_three_aliases,
          g_reduced := [True], g_aliased := True,
          g_redToAlias := [0, 1, 3, 4], g_aliasToRed := [0, 1, index_t_max, 2, 3],
          g_rvars := [0, 0, 0, 0]\<rparr>"
  by (simp add: compute_aliases_def ex_three_outputs_unfold global_init_def upt_5
      alias_node_step_def has_interface_constraint_def noAlias_def create_mappings_def
      mapping_step_def alias_empty_def ex_three_aliases_def resize_def Let_def)


lemma ex_single_edge_unfold:
  "ex_single_edge c =
     (global_init 37 11)
       \<lparr>g_nvars := [0], g_cdata := [c], g_aliases := [noAlias], g_ngrad := [0]\<rparr>"
  by (simp add: ex_single_edge_def allocate_def global_reset_def global_init_def resize_def)

theorem global_solve_bounds_witness:
  "g_cdata ex_three_outputs \<noteq> [] \<and>
   global_lower (g_cdata ex_three_outputs) = 2 \<and>
   global_upper (g_cdata ex_three_outputs) = 12 \<and>
   (Global_alias_constraint 2, 1 / 10)
      \<in> set (opt_inequality_constraints (fst (snd (global_solve 36 no_noise False ex_three_outputs)))) \<and>
   opt_lower_bounds (fst (snd (global_solve 36 no_noise False ex_three_outputs)))
      = Some (replicate (opt_n (fst (snd (global_solve 36 no_noise False ex_three_outputs)))) 2) \<and>
   min_bound (g_aliases (fst (global_solve 36 no_noise False ex_three_outputs)) ! 2) = 2"
proof -
  have c: "g_cdata ex_three_outputs = [3, 4, 2, 5, 6]" by (simp add: ex_three_outputs_def)
  have lo: "global_lower (g_cdata ex_three_outputs) = 2" by (simp add: c global_lower_def)
  have up: "global_upper (g_cdata ex_three_outputs) = 12" by (simp add: c global_upper_def)
  have r: "(Global_alias_constraint 2, 1 / 10)
      \<in> set (opt_inequality_constraints (fst (snd (global_solve 36 no_noise False ex_three_outputs))))"
    unfolding global_solve_opt compute_aliases_three_outputs
    by (simp add: global_constraints_def Let_def has_constraint_def ex_three_aliases_def
        ex_three_outputs_unfold global_init_def upt_5)
  from global_solve_bounds[of ex_three_outputs 36 no_noise False] c lo up r
  show ?thesis by auto
qed

text \<open>
  Claim C6 as stated fails for the single target 4000: the lower bound handed to the
  optimiser is 1000, the stated \<open>max(2, floor(4000 * 0.5))\<close> is 2000.
\<close>

theorem global_solve_bounds_counterexample:
  "opt_lower_bounds (fst (snd (global_solve 36 no_noise False (ex_single_edge 4000)))) = Some [1000] \<and>
   max 2 (real_of_int \<lfloor>4000 * 0.5 :: real\<rfloor>) = 2000"
  by (simp add: global_solve_opt global_constraints_fields global_bounds_def compute_aliases_def
      ex_single_edge_unfold global_init_def Let_def)

subsection \<open>The starting point without noise\<close>




























end
